theory Spec2Isabelle
  imports Main "HOL-Library.Word"
begin

section \<open>Python values used by setup.py\<close>

text \<open>
  Exceptions are values. The first five are subclasses of Python's \<open>Exception\<close>;
  \<open>KeyboardInterrupt\<close> and \<open>SystemExit\<close> derive from \<open>BaseException\<close> only, so an
  \<^verbatim>\<open>except Exception\<close> clause lets them through.
\<close>

datatype py_exception =
    ValueError | IndexError | DecodeError | ImportError | UnicodeEncodeError
  | KeyboardInterrupt | SystemExit

fun is_Exception :: "py_exception \<Rightarrow> bool" where
  "is_Exception KeyboardInterrupt = False"
| "is_Exception SystemExit = False"
| "is_Exception _ = True"

text \<open>
  Python's truth test on a value that is \<open>None\<close> or a \<open>str\<close>: \<open>None\<close> and the empty
  string are false.
\<close>

fun truthy :: "string option \<Rightarrow> bool" where
  "truthy None = False"
| "truthy (Some s) = (s \<noteq> [])"

text \<open>The dictionary each parser emits: keys \<open>name\<close>, \<open>secret\<close>, \<open>digits\<close>, \<open>algorithm\<close>.\<close>

record account =
  acc_name :: string
  acc_secret :: string
  acc_digits :: int
  acc_algorithm :: string

section \<open>String operations of the standard library\<close>

text \<open>
  A Python text is modelled by the \<open>string\<close> of its UTF-8 bytes, so that an ASCII text is
  the string of its characters; a text with a lone surrogate has no UTF-8 form and is not
  modelled. The models below are those of the \<open>str\<close> methods, of \<open>int\<close> and of
  \<open>urllib.parse\<close> in CPython 3.11, whose character tables are those of Unicode 14.
\<close>

definition lstrip_char :: "char \<Rightarrow> string \<Rightarrow> string" where
  \<comment> \<open>\<open>s.lstrip(c)\<close> for a one-character argument\<close>
  "lstrip_char c s = dropWhile (\<lambda>x. x = c) s"

definition str_split1 :: "char \<Rightarrow> string \<Rightarrow> string list" where
  \<comment> \<open>\<open>s.split(c, 1)\<close>: at most one split, at the first occurrence\<close>
  "str_split1 c s =
     (if c \<in> set s
      then [takeWhile (\<lambda>x. x \<noteq> c) s, drop 1 (dropWhile (\<lambda>x. x \<noteq> c) s)]
      else [s])"

fun str_split :: "char \<Rightarrow> string \<Rightarrow> string list" where
  \<comment> \<open>\<open>s.split(c)\<close>: every occurrence splits, empty pieces are kept\<close>
  "str_split c [] = [[]]"
| "str_split c (x # xs) =
     (if x = c then [] # str_split c xs
      else (case str_split c xs of
              p # ps \<Rightarrow> (x # p) # ps
            | [] \<Rightarrow> [[x]]))"

definition str_replace :: "char \<Rightarrow> char \<Rightarrow> string \<Rightarrow> string" where
  "str_replace a b s = map (\<lambda>x. if x = a then b else x) s"

definition ascii_lower :: "char \<Rightarrow> char" where
  "ascii_lower c =
     (let n = (of_char c :: nat) in if 65 \<le> n \<and> n \<le> 90 then char_of (n + 32) else c)"

definition is_digit :: "char \<Rightarrow> bool" where
  "is_digit c = (let n = (of_char c :: nat) in 48 \<le> n \<and> n \<le> 57)"

definition is_ascii_alpha :: "char \<Rightarrow> bool" where
  "is_ascii_alpha c =
     (let n = (of_char c :: nat) in (65 \<le> n \<and> n \<le> 90) \<or> (97 \<le> n \<and> n \<le> 122))"

definition is_hex :: "char \<Rightarrow> bool" where
  "is_hex c =
     (let n = (of_char c :: nat)
      in (48 \<le> n \<and> n \<le> 57) \<or> (65 \<le> n \<and> n \<le> 70) \<or> (97 \<le> n \<and> n \<le> 102))"

definition hex_value :: "char \<Rightarrow> nat" where
  "hex_value c =
     (let n = (of_char c :: nat)
      in if n \<le> 57 then n - 48 else if n \<le> 70 then n - 55 else n - 87)"

subsection \<open>UTF-8\<close>

text \<open>
  The code points of a byte string, as \<open>bytes.decode("utf-8", errors="replace")\<close> gives
  them: a well-formed sequence of one to four bytes is its code point; a byte that starts
  none, and every well-formed start that the next byte does not continue, is U+FFFD.
\<close>

definition is_cont :: "char \<Rightarrow> bool" where
  "is_cont c = (let n = (of_char c :: nat) in 0x80 \<le> n \<and> n \<le> 0xBF)"

definition second_ok :: "nat \<Rightarrow> char \<Rightarrow> bool" where
  \<comment> \<open>the second byte allowed after the lead byte \<open>n\<close>: no overlong form, no surrogate,
      nothing above U+10FFFF\<close>
  "second_ok n c =
     (let m = (of_char c :: nat)
      in if n = 0xE0 then 0xA0 \<le> m \<and> m \<le> 0xBF
         else if n = 0xED then 0x80 \<le> m \<and> m \<le> 0x9F
         else if n = 0xF0 then 0x90 \<le> m \<and> m \<le> 0xBF
         else if n = 0xF4 then 0x80 \<le> m \<and> m \<le> 0x8F
         else 0x80 \<le> m \<and> m \<le> 0xBF)"

fun utf8_decode :: "string \<Rightarrow> nat list" where
  "utf8_decode [] = []"
| "utf8_decode (b # bs) =
     (let n = (of_char b :: nat)
      in if n < 0x80 then n # utf8_decode bs
         else if n < 0xC2 \<or> 0xF4 < n then 0xFFFD # utf8_decode bs
         else (case bs of
                 [] \<Rightarrow> [0xFFFD]
               | c # cs \<Rightarrow>
                   if \<not> second_ok n c then 0xFFFD # utf8_decode bs
                   else if n < 0xE0
                   then ((n - 0xC0) * 64 + (of_char c - 0x80)) # utf8_decode cs
                   else (case cs of
                           [] \<Rightarrow> [0xFFFD]
                         | d # ds \<Rightarrow>
                             if \<not> is_cont d then 0xFFFD # utf8_decode cs
                             else if n < 0xF0
                             then (((n - 0xE0) * 64 + (of_char c - 0x80)) * 64
                                     + (of_char d - 0x80)) # utf8_decode ds
                             else (case ds of
                                     [] \<Rightarrow> [0xFFFD]
                                   | e # es \<Rightarrow>
                                       if \<not> is_cont e then 0xFFFD # utf8_decode ds
                                       else ((((n - 0xF0) * 64 + (of_char c - 0x80)) * 64
                                                + (of_char d - 0x80)) * 64
                                               + (of_char e - 0x80)) # utf8_decode es))))"

definition utf8_encode :: "nat \<Rightarrow> string" where
  \<comment> \<open>the bytes of one code point\<close>
  "utf8_encode cp =
     (if cp < 0x80 then [char_of cp]
      else if cp < 0x800 then [char_of (0xC0 + cp div 64), char_of (0x80 + cp mod 64)]
      else if cp < 0x10000
      then [char_of (0xE0 + cp div 4096), char_of (0x80 + (cp div 64) mod 64),
            char_of (0x80 + cp mod 64)]
      else [char_of (0xF0 + cp div 262144), char_of (0x80 + (cp div 4096) mod 64),
            char_of (0x80 + (cp div 64) mod 64), char_of (0x80 + cp mod 64)])"

definition utf8_text :: "nat list \<Rightarrow> string" where
  "utf8_text cps = concat (map utf8_encode cps)"

subsection \<open>\<open>str.upper\<close>\<close>

text \<open>
  Upper-casing, character by character. The table holds the ASCII letters and every other
  character whose upper-case form is ASCII text (sharp s, dotless i, long s and the Latin
  ligatures); any other character is kept, where \<open>str.upper\<close> gives a text that is not ASCII
  either. So \<open>upper\<close> is \<open>str.upper\<close> wherever that gives an ASCII text.
\<close>

definition upper_cp :: "nat \<Rightarrow> nat list" where
  "upper_cp cp =
     (if 97 \<le> cp \<and> cp \<le> 122 then [cp - 32]
      else if cp < 128 then [cp]
      else if cp = 0xDF then [83, 83]
      else if cp = 0x131 then [73]
      else if cp = 0x17F then [83]
      else if cp = 0xFB00 then [70, 70]
      else if cp = 0xFB01 then [70, 73]
      else if cp = 0xFB02 then [70, 76]
      else if cp = 0xFB03 then [70, 70, 73]
      else if cp = 0xFB04 then [70, 70, 76]
      else if cp = 0xFB05 \<or> cp = 0xFB06 then [83, 84]
      else [cp])"

definition upper :: "string \<Rightarrow> string" where
  "upper s = utf8_text (concat (map upper_cp (utf8_decode s)))"

subsection \<open>\<open>int(text)\<close>\<close>

text \<open>
  \<open>int\<close> on a text. Every character from U+007F on is first replaced: a Unicode space by a
  blank, a decimal digit of any script by its ASCII digit; any other such character makes
  the text invalid. Then surrounding whitespace is stripped, one sign is allowed, and
  decimal digits follow, single underscores allowed between digits. Anything else raises
  \<open>ValueError\<close>, and so does a text of more than 4300 digits (the interpreter's default
  limit).
\<close>

definition unicode_spaces :: "nat list" where
  "unicode_spaces =
     [0x85, 0xA0, 0x1680, 0x2000, 0x2001, 0x2002, 0x2003, 0x2004, 0x2005, 0x2006, 0x2007,
      0x2008, 0x2009, 0x200A, 0x2028, 0x2029, 0x202F, 0x205F, 0x3000]"

definition unicode_zeros :: "nat list" where
  \<comment> \<open>the digit zero of every script; its nine successors are the digits one to nine\<close>
  "unicode_zeros =
     [0x30, 0x660, 0x6F0, 0x7C0, 0x966, 0x9E6, 0xA66, 0xAE6, 0xB66, 0xBE6, 0xC66, 0xCE6,
      0xD66, 0xDE6, 0xE50, 0xED0, 0xF20, 0x1040, 0x1090, 0x17E0, 0x1810, 0x1946, 0x19D0,
      0x1A80, 0x1A90, 0x1B50, 0x1BB0, 0x1C40, 0x1C50, 0xA620, 0xA8D0, 0xA900, 0xA9D0,
      0xA9F0, 0xAA50, 0xABF0, 0xFF10, 0x104A0, 0x10D30, 0x11066, 0x110F0, 0x11136,
      0x111D0, 0x112F0, 0x11450, 0x114D0, 0x11650, 0x116C0, 0x11730, 0x118E0, 0x11950,
      0x11C50, 0x11D50, 0x11DA0, 0x16A60, 0x16AC0, 0x16B50, 0x1D7CE, 0x1D7D8, 0x1D7E2,
      0x1D7EC, 0x1D7F6, 0x1E140, 0x1E2F0, 0x1E950, 0x1FBF0]"

definition int_char :: "nat \<Rightarrow> char option" where
  "int_char cp =
     (if cp < 127 then Some (char_of cp)
      else if cp \<in> set unicode_spaces then Some CHR '' ''
      else (case find (\<lambda>z. z \<le> cp \<and> cp < z + 10) unicode_zeros of
              Some z \<Rightarrow> Some (char_of (48 + (cp - z)))
            | None \<Rightarrow> None))"

definition is_py_space :: "char \<Rightarrow> bool" where
  "is_py_space c =
     (let n = (of_char c :: nat) in (9 \<le> n \<and> n \<le> 13) \<or> n = 32)"

definition strip_ws :: "string \<Rightarrow> string" where
  "strip_ws s = rev (dropWhile is_py_space (rev (dropWhile is_py_space s)))"

fun digit_groups_ok :: "string \<Rightarrow> bool" where
  \<comment> \<open>a digit, then digits each preceded by at most one underscore\<close>
  "digit_groups_ok [] = False"
| "digit_groups_ok [c] = is_digit c"
| "digit_groups_ok (c # d # rest) =
     (is_digit c \<and>
      (if d = CHR ''_'' then digit_groups_ok rest else digit_groups_ok (d # rest)))"

fun decimal_value :: "nat \<Rightarrow> string \<Rightarrow> nat" where
  "decimal_value acc [] = acc"
| "decimal_value acc (c # cs) = decimal_value (10 * acc + (of_char c - 48)) cs"

definition py_int :: "string \<Rightarrow> py_exception + int" where
  "py_int s =
     (case those (map int_char (utf8_decode s)) of
        None \<Rightarrow> Inl ValueError
      | Some ascii \<Rightarrow>
          (let t = strip_ws ascii;
               neg = (t \<noteq> [] \<and> hd t = CHR ''-'');
               body = (if t \<noteq> [] \<and> (hd t = CHR ''-'' \<or> hd t = CHR ''+'') then tl t else t)
           in if digit_groups_ok body \<and> length (filter (\<lambda>c. c \<noteq> CHR ''_'') body) \<le> 4300
              then (let n = int (decimal_value 0 (filter (\<lambda>c. c \<noteq> CHR ''_'') body))
                    in Inr (if neg then - n else n))
              else Inl ValueError))"

subsection \<open>\<open>urllib.parse\<close>\<close>

fun unquote_to_bytes :: "string \<Rightarrow> string" where
  \<comment> \<open>\<open>%XX\<close> with two hexadecimal digits is the byte \<open>XX\<close>; any other \<open>%\<close> stays\<close>
  "unquote_to_bytes (c # h1 # h2 # rest) =
     (if c = CHR ''%'' \<and> is_hex h1 \<and> is_hex h2
      then char_of (16 * hex_value h1 + hex_value h2) # unquote_to_bytes rest
      else c # unquote_to_bytes (h1 # h2 # rest))"
| "unquote_to_bytes s = s"

definition unquote :: "string \<Rightarrow> string" where
  \<comment> \<open>a text without \<open>%\<close> is returned as it is; otherwise the bytes are decoded as UTF-8
      with \<open>errors="replace"\<close>\<close>
  "unquote s =
     (if CHR ''%'' \<notin> set s then s else utf8_text (utf8_decode (unquote_to_bytes s)))"

record parse_result =
  scheme :: string
  netloc :: string
  path :: string
  params :: string
  query :: string
  fragment :: string

definition is_scheme_char :: "char \<Rightarrow> bool" where
  "is_scheme_char c =
     (is_ascii_alpha c \<or> is_digit c \<or> c = CHR ''+'' \<or> c = CHR ''-'' \<or> c = CHR ''.'')"

definition is_c0_or_space :: "char \<Rightarrow> bool" where
  "is_c0_or_space c = ((of_char c :: nat) \<le> 32)"

definition is_unsafe_url_byte :: "char \<Rightarrow> bool" where
  "is_unsafe_url_byte c = ((of_char c :: nat) = 9 \<or> (of_char c :: nat) = 10 \<or> (of_char c :: nat) = 13)"

definition is_netloc_end :: "char \<Rightarrow> bool" where
  "is_netloc_end c = (c = CHR ''/'' \<or> c = CHR ''?'' \<or> c = CHR ''#'')"

definition split_scheme :: "string \<Rightarrow> string \<times> string" where
  \<comment> \<open>the text before the first colon is the scheme when it starts with a letter and
      holds scheme characters only; it is lower-cased\<close>
  "split_scheme url =
     (let pre = takeWhile (\<lambda>x. x \<noteq> CHR '':'') url
      in if CHR '':'' \<in> set url \<and> pre \<noteq> [] \<and> is_ascii_alpha (hd pre) \<and> list_all is_scheme_char pre
         then (map ascii_lower pre, drop (length pre + 1) url)
         else ([], url))"

definition split_netloc :: "string \<Rightarrow> string \<times> string" where
  "split_netloc url =
     (if take 2 url = ''//''
      then (takeWhile (\<lambda>x. \<not> is_netloc_end x) (drop 2 url),
            dropWhile (\<lambda>x. \<not> is_netloc_end x) (drop 2 url))
      else ([], url))"

definition split_first :: "char \<Rightarrow> string \<Rightarrow> string \<times> string" where
  \<comment> \<open>\<open>if c in s: s, t = s.split(c, 1)\<close>, with \<open>t\<close> empty otherwise\<close>
  "split_first c s =
     (if c \<in> set s
      then (takeWhile (\<lambda>x. x \<noteq> c) s, drop 1 (dropWhile (\<lambda>x. x \<noteq> c) s))
      else (s, []))"

definition uses_params :: "string list" where
  \<comment> \<open>the schemes whose last path segment may carry \<open>;parameters\<close>; the first is the empty
      scheme\<close>
  "uses_params =
     [[], ''ftp'', ''hdl'', ''prospero'', ''http'', ''imap'', ''https'', ''shttp'', ''rtsp'',
      ''rtsps'', ''rtspu'', ''sip'', ''sips'', ''mms'', ''sftp'', ''tel'']"

definition splitparams :: "string \<Rightarrow> string \<times> string" where
  \<comment> \<open>the parameters follow the first \<open>;\<close> of the last path segment\<close>
  "splitparams url =
     (if CHR ''/'' \<in> set url
      then (let seg = rev (takeWhile (\<lambda>x. x \<noteq> CHR ''/'') (rev url));
                dir = take (length url - length seg) url
            in if CHR '';'' \<in> set seg
               then (dir @ takeWhile (\<lambda>x. x \<noteq> CHR '';'') seg,
                     drop 1 (dropWhile (\<lambda>x. x \<noteq> CHR '';'') seg))
               else (url, []))
      else (takeWhile (\<lambda>x. x \<noteq> CHR '';'') url, drop 1 (dropWhile (\<lambda>x. x \<noteq> CHR '';'') url)))"

text \<open>
  \<open>urlparse\<close> raises \<open>ValueError\<close> in three cases: the authority has one bracket but not the
  other; the host between its brackets is no IP literal; the authority, not being ASCII,
  fails the NFKC check. The last two checks are those of the library's
  \<open>_check_bracketed_host\<close> and \<open>_checknetloc\<close>; their verdict on an authority is the parameter
  \<open>netloc_ok\<close>, which is asked only for an authority with both brackets or with a character
  that is not ASCII.
\<close>

definition urlparse :: "(string \<Rightarrow> bool) \<Rightarrow> string \<Rightarrow> py_exception + parse_result" where
  "urlparse netloc_ok url0 =
     (let url1 = filter (\<lambda>x. \<not> is_unsafe_url_byte x) (dropWhile is_c0_or_space url0);
          sch = fst (split_scheme url1);
          url2 = snd (split_scheme url1);
          net = fst (split_netloc url2);
          url3 = snd (split_netloc url2);
          url4 = fst (split_first CHR ''#'' url3);
          frag = snd (split_first CHR ''#'' url3);
          url5 = fst (split_first CHR ''?'' url4);
          qry = snd (split_first CHR ''?'' url4);
          with_params = (sch \<in> set uses_params \<and> CHR '';'' \<in> set url5)
      in if (CHR ''['' \<in> set net \<and> CHR '']'' \<notin> set net) \<or>
            (CHR '']'' \<in> set net \<and> CHR ''['' \<notin> set net)
         then Inl ValueError
         else if ((CHR ''['' \<in> set net \<and> CHR '']'' \<in> set net) \<or>
                  list_ex (\<lambda>c. 128 \<le> (of_char c :: nat)) net) \<and> \<not> netloc_ok net
         then Inl ValueError
         else Inr \<lparr>scheme = sch, netloc = net,
                   path = (if with_params then fst (splitparams url5) else url5),
                   params = (if with_params then snd (splitparams url5) else []),
                   query = qry, fragment = frag\<rparr>)"

fun parse_qsl_loop :: "string list \<Rightarrow> (string \<times> string) list \<Rightarrow> (string \<times> string) list" where
  \<comment> \<open>the loop of \<open>parse_qsl\<close> with \<open>keep_blank_values\<close> and \<open>strict_parsing\<close> off: a field
      with no \<open>=\<close> or with an empty value is skipped\<close>
  "parse_qsl_loop [] r = r"
| "parse_qsl_loop (name_value # rest) r =
     (if name_value = [] then parse_qsl_loop rest r
      else (let nv = str_split1 CHR ''='' name_value
            in if length nv \<noteq> 2 then parse_qsl_loop rest r
               else if length (nv ! 1) \<noteq> 0
               then parse_qsl_loop rest
                      (r @ [(unquote (str_replace CHR ''+'' CHR '' '' (nv ! 0)),
                             unquote (str_replace CHR ''+'' CHR '' '' (nv ! 1)))])
               else parse_qsl_loop rest r))"

definition parse_qsl :: "string \<Rightarrow> (string \<times> string) list" where
  "parse_qsl qs = parse_qsl_loop (str_split CHR ''&'' qs) []"

fun parse_qs_loop ::
  "(string \<times> string) list \<Rightarrow> (string \<rightharpoonup> string list) \<Rightarrow> (string \<rightharpoonup> string list)" where
  "parse_qs_loop [] parsed_result = parsed_result"
| "parse_qs_loop ((name, v) # pairs) parsed_result =
     parse_qs_loop pairs
       (case parsed_result name of
          Some vs \<Rightarrow> parsed_result(name \<mapsto> vs @ [v])
        | None \<Rightarrow> parsed_result(name \<mapsto> [v]))"

definition parse_qs :: "string \<Rightarrow> (string \<rightharpoonup> string list)" where
  "parse_qs qs = parse_qs_loop (parse_qsl qs) Map.empty"

definition get_first :: "(string \<rightharpoonup> string list) \<Rightarrow> string \<Rightarrow> string option \<Rightarrow> py_exception + string option" where
  \<comment> \<open>\<open>d.get(key, [default])[0]\<close>: indexing an empty list raises \<open>IndexError\<close>\<close>
  "get_first d key dflt =
     (case d key of
        None \<Rightarrow> Inr dflt
      | Some [] \<Rightarrow> Inl IndexError
      | Some (v # _) \<Rightarrow> Inr (Some v))"

text \<open>
  The first value of a key in a dictionary of value lists, and the same with a default
  text: what \<open>d.get(key, [default])[0]\<close> reads when no list is empty.
\<close>

definition first_value :: "(string \<rightharpoonup> string list) \<Rightarrow> string \<Rightarrow> string option" where
  "first_value d key = (case d key of Some (v # _) \<Rightarrow> Some v | _ \<Rightarrow> None)"

definition value_or :: "(string \<rightharpoonup> string list) \<Rightarrow> string \<Rightarrow> string \<Rightarrow> string" where
  "value_or d key dflt = (case first_value d key of Some v \<Rightarrow> v | None \<Rightarrow> dflt)"

section \<open>The single-account URL parser\<close>

definition label_issuer_account :: "string \<Rightarrow> string option \<Rightarrow> string option \<times> string" where
  \<comment> \<open>lines 123 to 134 of setup.py: the issuer and the account name, from the label and
      the \<open>issuer\<close> query parameter\<close>
  "label_issuer_account label issuer =
     (if CHR '':'' \<in> set label
      then (let parts = str_split1 CHR '':'' label
            in if truthy issuer
               then (issuer, if length parts > 1 then parts ! 1 else parts ! 0)
               else (Some (parts ! 0), if length parts > 1 then parts ! 1 else []))
      else (if \<not> truthy issuer then (Some [], label) else (issuer, label)))"

definition url_display_name :: "string option \<Rightarrow> string \<Rightarrow> string" where
  \<comment> \<open>lines 136 to 144 of setup.py\<close>
  "url_display_name issuer account_name =
     (if truthy issuer \<and> account_name \<noteq> []
      then the issuer @ '' ('' @ account_name @ '')''
      else if truthy issuer then the issuer
      else if account_name \<noteq> [] then account_name
      else ''Unknown'')"

definition parse_otpauth_body :: "(string \<Rightarrow> bool) \<Rightarrow> string \<Rightarrow> py_exception + account option" where
  \<comment> \<open>the body of the \<open>try\<close> block of \<open>parse_otpauth_url\<close>\<close>
  "parse_otpauth_body netloc_ok url =
     (case urlparse netloc_ok url of
        Inl e \<Rightarrow> Inl e
      | Inr parsed \<Rightarrow>
          if scheme parsed \<noteq> ''otpauth'' then Inr None
          else (let label = unquote (lstrip_char CHR ''/'' (path parsed));
                    prms = parse_qs (query parsed)
                in case get_first prms ''secret'' None of
                     Inl e \<Rightarrow> Inl e
                   | Inr None \<Rightarrow> Inr None
                   | Inr (Some secret) \<Rightarrow>
                       if secret = [] then Inr None
                       else (case get_first prms ''issuer'' None of
                               Inl e \<Rightarrow> Inl e
                             | Inr issuer0 \<Rightarrow>
                                 (let issuer = fst (label_issuer_account label issuer0);
                                      account_name = snd (label_issuer_account label issuer0);
                                      display_name = url_display_name issuer account_name
                                  in case get_first prms ''algorithm'' (Some ''SHA1'') of
                                       Inl e \<Rightarrow> Inl e
                                     | Inr alg0 \<Rightarrow>
                                         (let alg1 = upper (the alg0);
                                              algorithm =
                                                (if alg1 \<notin> set [''SHA1'', ''SHA256'', ''SHA512'', ''MD5'']
                                                 then ''SHA1'' else alg1)
                                          in case get_first prms ''digits'' (Some ''6'') of
                                               Inl e \<Rightarrow> Inl e
                                             | Inr dg0 \<Rightarrow>
                                                 (case py_int (the dg0) of
                                                    Inl e \<Rightarrow> Inl e
                                                  | Inr dg1 \<Rightarrow>
                                                      Inr (Some \<lparr>acc_name = display_name,
                                                                  acc_secret = secret,
                                                                  acc_digits =
                                                                    (if dg1 \<notin> set [6, 7, 8] then 6 else dg1),
                                                                  acc_algorithm = algorithm\<rparr>)))))))"

text \<open>
  The handler of \<open>parse_otpauth_url\<close> prints a warning that holds the exception's message
  and then returns \<open>None\<close>. What the \<open>print\<close> does depends on the console and on the
  message, which the URL determines: \<open>print_error url\<close> is \<open>None\<close> when it returns and the
  exception when it raises one (as \<open>UnicodeEncodeError\<close>, on an output stream that cannot
  encode the line). An exception raised in the handler reaches the caller.
\<close>

definition parse_otpauth_url ::
  "(string \<Rightarrow> bool) \<Rightarrow> (string \<Rightarrow> py_exception option) \<Rightarrow> string
     \<Rightarrow> py_exception + account option" where
  "parse_otpauth_url netloc_ok print_error url =
     (case parse_otpauth_body netloc_ok url of
        Inl e \<Rightarrow>
          if is_Exception e
          then (case print_error url of None \<Rightarrow> Inr None | Some raised \<Rightarrow> Inl raised)
          else Inl e
      | Inr r \<Rightarrow> Inr r)"

section \<open>Base32 encoding\<close>

type_synonym byte = "8 word"

definition b32alphabet :: string where
  "b32alphabet = ''ABCDEFGHIJKLMNOPQRSTUVWXYZ234567''"

definition b32tab2 :: "nat \<Rightarrow> string" where
  \<comment> \<open>the table of character pairs, indexed by ten bits\<close>
  "b32tab2 i = [b32alphabet ! (i div 32), b32alphabet ! (i mod 32)]"

definition from_bytes :: "byte list \<Rightarrow> nat" where
  \<comment> \<open>\<open>int.from_bytes\<close>, big endian\<close>
  "from_bytes bs = foldl (\<lambda>acc b. 256 * acc + unat b) 0 bs"

fun encode_quanta :: "byte list \<Rightarrow> string" where
  \<comment> \<open>the loop \<open>for i in range(0, len(s), 5)\<close> over the padded input\<close>
  "encode_quanta (b0 # b1 # b2 # b3 # b4 # rest) =
     (let c = from_bytes [b0, b1, b2, b3, b4]
      in b32tab2 (c div 2 ^ 30) @
         b32tab2 ((c div 2 ^ 20) mod 1024) @
         b32tab2 ((c div 2 ^ 10) mod 1024) @
         b32tab2 (c mod 1024)) @ encode_quanta rest"
| "encode_quanta _ = []"

definition b32encode :: "byte list \<Rightarrow> string" where
  "b32encode s =
     (let leftover = length s mod 5;
          padded = (if leftover \<noteq> 0 then s @ replicate (5 - leftover) 0 else s);
          encoded = encode_quanta padded
      in if leftover = 1 then take (length encoded - 6) encoded @ ''======''
         else if leftover = 2 then take (length encoded - 4) encoded @ ''====''
         else if leftover = 3 then take (length encoded - 3) encoded @ ''===''
         else if leftover = 4 then take (length encoded - 1) encoded @ ''=''
         else encoded)"

section \<open>The migration parser\<close>

text \<open>
  One entry of \<open>migration.otp_parameters\<close>, with the fields the code reads. The message
  class is generated from \<open>auth_migration.proto\<close>; a string field that is absent reads as
  the empty string, a bytes field as no bytes and an enumeration as 0.
\<close>

record otp_parameters =
  otp_secret :: "byte list"
  otp_name :: string
  otp_issuer :: string
  otp_algorithm :: int
  otp_digits :: int

definition migration_display_name :: "string \<Rightarrow> string \<Rightarrow> string" where
  \<comment> \<open>lines 194 to 205 of setup.py\<close>
  "migration_display_name otp_issuer_text otp_name_text =
     (let issuer = (if otp_issuer_text \<noteq> [] then otp_issuer_text else []);
          nm = (if otp_name_text \<noteq> [] then otp_name_text else [])
      in if issuer \<noteq> [] \<and> nm \<noteq> [] then issuer @ '' ('' @ nm @ '')''
         else if issuer \<noteq> [] then issuer
         else if nm \<noteq> [] then nm
         else ''Unknown'')"

definition algorithm_map :: "int \<rightharpoonup> string" where
  "algorithm_map = [1 \<mapsto> ''SHA1'', 2 \<mapsto> ''SHA256'', 3 \<mapsto> ''SHA512'', 4 \<mapsto> ''MD5'']"

definition migration_algorithm :: "int \<Rightarrow> string" where
  \<comment> \<open>\<open>algorithm_map.get(otp.algorithm, "SHA1")\<close>\<close>
  "migration_algorithm code = (case algorithm_map code of Some a \<Rightarrow> a | None \<Rightarrow> ''SHA1'')"

definition migration_digits :: "int \<Rightarrow> int" where
  \<comment> \<open>line 217: \<open>otp.digits if otp.digits in [6, 7, 8] else 6\<close>\<close>
  "migration_digits d = (if d \<in> set [6, 7, 8] then d else 6)"

definition otp_account :: "otp_parameters \<Rightarrow> account" where
  \<comment> \<open>the body of the loop over \<open>migration.otp_parameters\<close>\<close>
  "otp_account otp =
     \<lparr>acc_name = migration_display_name (otp_issuer otp) (otp_name otp),
      acc_secret = b32encode (otp_secret otp),
      acc_digits = migration_digits (otp_digits otp),
      acc_algorithm = migration_algorithm (otp_algorithm otp)\<rparr>"

fun accounts_loop :: "otp_parameters list \<Rightarrow> account list \<Rightarrow> account list" where
  "accounts_loop [] accounts = accounts"
| "accounts_loop (otp # rest) accounts = accounts_loop rest (accounts @ [otp_account otp])"

text \<open>
  \<open>base64.urlsafe_b64decode\<close> and the generated \<open>MigrationPayload.ParseFromString\<close>
  (with the import of its module) are not part of the sources at hand; the parser takes
  them as parameters, each returning its result or the exception it raises. Its handler
  prints a warning as that of \<open>parse_otpauth_url\<close> does.
\<close>

definition parse_migration_body ::
  "(string \<Rightarrow> bool) \<Rightarrow> (string \<Rightarrow> py_exception + byte list)
     \<Rightarrow> (byte list \<Rightarrow> py_exception + otp_parameters list)
     \<Rightarrow> string \<Rightarrow> py_exception + account list option" where
  "parse_migration_body netloc_ok urlsafe_b64decode parse_from_string url =
     (case urlparse netloc_ok url of
        Inl e \<Rightarrow> Inl e
      | Inr parsed \<Rightarrow>
          if scheme parsed \<noteq> ''otpauth-migration'' then Inr None
          else (case parse_qs (query parsed) ''data'' of
                  None \<Rightarrow> Inr None
                | Some [] \<Rightarrow> Inr None
                | Some (data # _) \<Rightarrow>
                    (case urlsafe_b64decode data of
                       Inl e \<Rightarrow> Inl e
                     | Inr payload \<Rightarrow>
                         (case parse_from_string payload of
                            Inl e \<Rightarrow> Inl e
                          | Inr otps \<Rightarrow> Inr (Some (accounts_loop otps []))))))"

definition parse_migration_url ::
  "(string \<Rightarrow> bool) \<Rightarrow> (string \<Rightarrow> py_exception option)
     \<Rightarrow> (string \<Rightarrow> py_exception + byte list)
     \<Rightarrow> (byte list \<Rightarrow> py_exception + otp_parameters list)
     \<Rightarrow> string \<Rightarrow> py_exception + account list option" where
  "parse_migration_url netloc_ok print_error urlsafe_b64decode parse_from_string url =
     (case parse_migration_body netloc_ok urlsafe_b64decode parse_from_string url of
        Inl e \<Rightarrow>
          if is_Exception e
          then (case print_error url of None \<Rightarrow> Inr None | Some raised \<Rightarrow> Inl raised)
          else Inl e
      | Inr r \<Rightarrow> Inr r)"

section \<open>The output writer\<close>

text \<open>
  The file system is a map from paths to file contents; the content of an accounts file is
  the list of account objects of its document.
\<close>

type_synonym filesystem = "string \<rightharpoonup> account list"

definition CSHARP_ACCOUNTS_JSON :: string where
  "CSHARP_ACCOUNTS_JSON = ''csharp-tray/AuthenticatorTray/accounts.json''"

definition UPDATED_ACCOUNTS_JSON :: string where
  \<comment> \<open>\<open>CSHARP_TRAY_DIR / "updated_accounts.json"\<close>\<close>
  "UPDATED_ACCOUNTS_JSON = ''csharp-tray/AuthenticatorTray/updated_accounts.json''"

definition csharp_file :: "filesystem \<Rightarrow> string" where
  \<comment> \<open>lines 306 to 311: the file name chosen\<close>
  "csharp_file fs =
     (if fs CSHARP_ACCOUNTS_JSON \<noteq> None then UPDATED_ACCOUNTS_JSON else CSHARP_ACCOUNTS_JSON)"

definition create_accounts_json :: "account list \<Rightarrow> filesystem \<Rightarrow> bool \<times> filesystem" where
  \<comment> \<open>\<open>open(csharp_file, "w")\<close> creates the file or replaces its content\<close>
  "create_accounts_json accounts fs =
     (if accounts = [] then (False, fs)
      else (let csharp_accounts =
                  map (\<lambda>acc. \<lparr>acc_name = acc_name acc, acc_secret = acc_secret acc,
                                 acc_digits = acc_digits acc,
                                 acc_algorithm = acc_algorithm acc\<rparr>) accounts
            in (True, fs(csharp_file fs \<mapsto> csharp_accounts))))"

section \<open>Vocabulary of the specification\<close>

text \<open>
  The naming rule as the specification words it (section 4.4): both texts present, only
  the issuer, only the name, neither. The two parsers are compared with it below.
\<close>

definition compose_display_name :: "string \<Rightarrow> string \<Rightarrow> string" where
  "compose_display_name issuer nm =
     (if issuer \<noteq> [] \<and> nm \<noteq> [] then issuer @ '' ('' @ nm @ '')''
      else if issuer \<noteq> [] \<and> nm = [] then issuer
      else if issuer = [] \<and> nm \<noteq> [] then nm
      else ''Unknown'')"

text \<open>A Base32 text without its padding, for comparing texts up to padding.\<close>

definition unpadded :: "string \<Rightarrow> string" where
  "unpadded s = filter (\<lambda>c. c \<noteq> CHR ''='') s"

text \<open>
  A field of a query string is the text between two \<open>&\<close>. Its name is the decoded text
  before the first \<open>=\<close>, its raw value the text after it (empty when there is none).
\<close>

definition field_name :: "string \<Rightarrow> string" where
  "field_name f = unquote (str_replace CHR ''+'' CHR '' '' (takeWhile (\<lambda>x. x \<noteq> CHR ''='') f))"

definition field_value :: "string \<Rightarrow> string" where
  "field_value f = drop 1 (dropWhile (\<lambda>x. x \<noteq> CHR ''='') f)"

text \<open>
  The issuer and the account name of a parsed single-account URL, as lines 111 to 134 of
  setup.py compute them from the label and the \<open>issuer\<close> parameter; an issuer that is \<open>None\<close>
  counts as the empty text.
\<close>

definition url_issuer_account :: "parse_result \<Rightarrow> string option \<times> string" where
  "url_issuer_account parsed =
     label_issuer_account (unquote (lstrip_char CHR ''/'' (path parsed)))
       (first_value (parse_qs (query parsed)) ''issuer'')"

definition text_of :: "string option \<Rightarrow> string" where
  "text_of t = (case t of None \<Rightarrow> [] | Some s \<Rightarrow> s)"

section \<open>Facts about the library models\<close>

lemma replicate_4: "replicate 4 x = [x, x, x, x]"
  by (simp add: numeral_eq_Suc)

lemma replicate_3: "replicate 3 x = [x, x, x]"
  by (simp add: numeral_eq_Suc)

lemma b32encode_00_01: "b32encode [0, 1] = ''AAAQ====''"
  by (simp add: b32encode_def from_bytes_def b32tab2_def b32alphabet_def Let_def replicate_3)

lemma b32encode_FF: "b32encode [0xFF] = ''74======''"
  by (simp add: b32encode_def from_bytes_def b32tab2_def b32alphabet_def Let_def replicate_4)

lemma b32encode_empty: "b32encode [] = []"
  by (simp add: b32encode_def)

lemma accounts_loop_map: "accounts_loop otps accounts = accounts @ map otp_account otps"
  by (induction otps arbitrary: accounts) simp_all

lemma migration_display_name_compose:
  "migration_display_name issuer nm = compose_display_name issuer nm"
  by (simp add: migration_display_name_def compose_display_name_def)

lemma url_display_name_compose:
  "url_display_name issuer nm =
     compose_display_name (case issuer of None \<Rightarrow> [] | Some i \<Rightarrow> i) nm"
  by (cases issuer) (simp_all add: url_display_name_def compose_display_name_def)

lemma compose_display_name_nonempty: "compose_display_name issuer nm \<noteq> []"
  by (simp add: compose_display_name_def)

lemma unquote_to_bytes_nonempty: "s \<noteq> [] \<Longrightarrow> unquote_to_bytes s \<noteq> []"
  by (induction s rule: unquote_to_bytes.induct) auto

lemma utf8_decode_nonempty: "s \<noteq> [] \<Longrightarrow> utf8_decode s \<noteq> []"
  by (cases s) (auto simp: Let_def split: list.splits)

lemma utf8_encode_nonempty: "utf8_encode cp \<noteq> []"
  by (simp add: utf8_encode_def)

lemma utf8_text_nonempty: "cps \<noteq> [] \<Longrightarrow> utf8_text cps \<noteq> []"
  by (cases cps) (simp_all add: utf8_text_def utf8_encode_nonempty)

lemma unquote_nonempty: "s \<noteq> [] \<Longrightarrow> unquote s \<noteq> []"
  by (simp add: unquote_def unquote_to_bytes_nonempty utf8_decode_nonempty utf8_text_nonempty)

lemma str_replace_nonempty: "s \<noteq> [] \<Longrightarrow> str_replace a b s \<noteq> []"
  by (simp add: str_replace_def)

lemma parse_qsl_loop_values:
  "\<forall>p \<in> set r. snd p \<noteq> [] \<Longrightarrow> \<forall>p \<in> set (parse_qsl_loop fs r). snd p \<noteq> []"
proof (induction fs arbitrary: r)
  case Nil
  then show ?case by simp
next
  case (Cons f fs)
  show ?case
  proof (cases "f \<noteq> [] \<and> length (str_split1 CHR ''='' f) = 2 \<and> length (str_split1 CHR ''='' f ! 1) \<noteq> 0")
    case True
    then have v: "unquote (str_replace CHR ''+'' CHR '' '' (str_split1 CHR ''='' f ! 1)) \<noteq> []"
      by (simp add: unquote_nonempty str_replace_nonempty)
    have "\<forall>p \<in> set (r @ [(unquote (str_replace CHR ''+'' CHR '' '' (str_split1 CHR ''='' f ! 0)),
                         unquote (str_replace CHR ''+'' CHR '' '' (str_split1 CHR ''='' f ! 1)))]). snd p \<noteq> []"
      using Cons.prems v by auto
    from Cons.IH [OF this] True show ?thesis by (simp add: Let_def)
  next
    case False
    with Cons.IH [OF Cons.prems] show ?thesis by (auto simp: Let_def)
  qed
qed

lemma parse_qsl_values: "(n, v) \<in> set (parse_qsl qs) \<Longrightarrow> v \<noteq> []"
  using parse_qsl_loop_values [of "[]" "str_split CHR ''&'' qs"] by (auto simp: parse_qsl_def)

lemma parse_qs_loop_lookup:
  "parse_qs_loop ps d k =
     (case d k of
        None \<Rightarrow> (if map snd (filter (\<lambda>p. fst p = k) ps) = [] then None
                  else Some (map snd (filter (\<lambda>p. fst p = k) ps)))
      | Some ws \<Rightarrow> Some (ws @ map snd (filter (\<lambda>p. fst p = k) ps)))"
proof (induction ps arbitrary: d)
  case Nil
  then show ?case by (simp split: option.splits)
next
  case (Cons p ps)
  obtain n v where p: "p = (n, v)" by (cases p)
  show ?case unfolding p by (simp add: Cons.IH split: option.splits)
qed

lemma parse_qs_lookup:
  "parse_qs qs k =
     (if map snd (filter (\<lambda>p. fst p = k) (parse_qsl qs)) = [] then None
      else Some (map snd (filter (\<lambda>p. fst p = k) (parse_qsl qs))))"
  by (simp add: parse_qs_def parse_qs_loop_lookup)

lemma parse_qs_not_empty_list: "parse_qs qs k \<noteq> Some []"
  by (simp add: parse_qs_lookup)

lemma parse_qs_value_nonempty: "parse_qs qs k = Some vs \<Longrightarrow> v \<in> set vs \<Longrightarrow> v \<noteq> []"
  using parse_qsl_values by (fastforce simp: parse_qs_lookup split: if_splits)

section \<open>The digits field of the migration path\<close>

text \<open>
  Claim C1 at a failing input. The payload
  \<open>0A 14 0A 01 FF 12 04 41 63 6D 65 1A 03 4D 43 42 20 01 28 02 30 02\<close> (the data parameter
  \<open>ChQKAf8SBEFjbWUaA01DQiABKAIwAg==\<close>) holds one entry with secret \<open>FF\<close>, name Acme, issuer
  MCB, algorithm code 1 and digits code 2, the code for eight digits. The account emitted
  for it has 6 digits: line 217 compares the code with the counts 6, 7 and 8.
\<close>

theorem migration_digits_code_2:
  "parse_migration_url netloc_ok print_error
     (\<lambda>data. if data = ''ChQKAf8SBEFjbWUaA01DQiABKAIwAg==''
        then Inr [0x0A, 0x14, 0x0A, 0x01, 0xFF, 0x12, 0x04, 0x41, 0x63, 0x6D, 0x65,
                  0x1A, 0x03, 0x4D, 0x43, 0x42, 0x20, 0x01, 0x28, 0x02, 0x30, 0x02]
        else Inl ValueError)
     (\<lambda>payload.
        if payload = [0x0A, 0x14, 0x0A, 0x01, 0xFF, 0x12, 0x04, 0x41, 0x63, 0x6D, 0x65,
                      0x1A, 0x03, 0x4D, 0x43, 0x42, 0x20, 0x01, 0x28, 0x02, 0x30, 0x02]
        then Inr [\<lparr>otp_secret = [0xFF], otp_name = ''Acme'', otp_issuer = ''MCB'',
                    otp_algorithm = 1, otp_digits = 2\<rparr>]
        else Inl DecodeError)
     ''otpauth-migration://offline?data=ChQKAf8SBEFjbWUaA01DQiABKAIwAg%3D%3D''
   = Inr (Some [\<lparr>acc_name = ''MCB (Acme)'', acc_secret = ''74======'', acc_digits = 6,
                  acc_algorithm = ''SHA1''\<rparr>])"
proof -
  have u: "urlparse netloc_ok
             ''otpauth-migration://offline?data=ChQKAf8SBEFjbWUaA01DQiABKAIwAg%3D%3D'' =
           Inr \<lparr>scheme = ''otpauth-migration'', netloc = ''offline'', path = [], params = [],
                 query = ''data=ChQKAf8SBEFjbWUaA01DQiABKAIwAg%3D%3D'', fragment = []\<rparr>"
    by code_simp
  have q: "parse_qs ''data=ChQKAf8SBEFjbWUaA01DQiABKAIwAg%3D%3D'' ''data'' =
           Some [''ChQKAf8SBEFjbWUaA01DQiABKAIwAg=='']"
    by code_simp
  have a: "otp_account \<lparr>otp_secret = [0xFF], otp_name = ''Acme'', otp_issuer = ''MCB'',
                          otp_algorithm = 1, otp_digits = 2\<rparr> =
           \<lparr>acc_name = ''MCB (Acme)'', acc_secret = ''74======'', acc_digits = 6,
             acc_algorithm = ''SHA1''\<rparr>"
    by (simp add: otp_account_def migration_display_name_def b32encode_FF migration_digits_def
          migration_algorithm_def algorithm_map_def)
  show ?thesis
    by (simp add: parse_migration_url_def parse_migration_body_def u q a)
qed

section \<open>Entries without a secret\<close>

text \<open>
  Claim C2 at a failing input. The payload bytes \<open>0A 00\<close> (the data parameter \<open>CgA=\<close>)
  hold one entry with no field at all; the loop emits an account for it, with the empty
  secret.
\<close>

theorem migration_emits_empty_secret:
  "parse_migration_url netloc_ok print_error
     (\<lambda>data. if data = ''CgA='' then Inr [0x0A, 0x00] else Inl ValueError)
     (\<lambda>payload. if payload = [0x0A, 0x00]
        then Inr [\<lparr>otp_secret = [], otp_name = [], otp_issuer = [], otp_algorithm = 0, otp_digits = 0\<rparr>]
        else Inl DecodeError)
     ''otpauth-migration://offline?data=CgA%3D''
   = Inr (Some [\<lparr>acc_name = ''Unknown'', acc_secret = [], acc_digits = 6,
                  acc_algorithm = ''SHA1''\<rparr>])"
proof -
  have u: "urlparse netloc_ok ''otpauth-migration://offline?data=CgA%3D'' =
           Inr \<lparr>scheme = ''otpauth-migration'', netloc = ''offline'', path = [], params = [],
                 query = ''data=CgA%3D'', fragment = []\<rparr>"
    by code_simp
  have q: "parse_qs ''data=CgA%3D'' ''data'' = Some [''CgA='']"
    by code_simp
  have a: "otp_account \<lparr>otp_secret = [], otp_name = [], otp_issuer = [], otp_algorithm = 0,
                          otp_digits = 0\<rparr> =
           \<lparr>acc_name = ''Unknown'', acc_secret = [], acc_digits = 6, acc_algorithm = ''SHA1''\<rparr>"
    by (simp add: otp_account_def migration_display_name_def b32encode_empty migration_digits_def
          migration_algorithm_def algorithm_map_def)
  show ?thesis
    by (simp add: parse_migration_url_def parse_migration_body_def u q a)
qed

section \<open>The two-entry payload\<close>

lemma two_entries_accounts:
  "accounts_loop
     [\<lparr>otp_secret = [0x00, 0x01], otp_name = ''Ericlein'', otp_issuer = ''GitHub'',
        otp_algorithm = alg_a, otp_digits = dig_a\<rparr>,
      \<lparr>otp_secret = [0xFF], otp_name = [], otp_issuer = ''Discord'',
        otp_algorithm = alg_b, otp_digits = dig_b\<rparr>] []
   = [\<lparr>acc_name = ''GitHub (Ericlein)'', acc_secret = ''AAAQ===='',
        acc_digits = migration_digits dig_a, acc_algorithm = migration_algorithm alg_a\<rparr>,
      \<lparr>acc_name = ''Discord'', acc_secret = ''74======'',
        acc_digits = migration_digits dig_b, acc_algorithm = migration_algorithm alg_b\<rparr>]"
  by (simp add: otp_account_def migration_display_name_def b32encode_00_01 b32encode_FF)

text \<open>
  Claim C5, as the code has it. A migration URL whose data parameter decodes to a payload
  of exactly two entries, the first with secret bytes \<open>00 01\<close>, issuer GitHub and name
  Ericlein, the second with secret byte \<open>FF\<close>, issuer Discord and no name, yields exactly
  two accounts in that order, with the Base32 secrets \<open>AAAQ====\<close> and \<open>74======\<close> and the
  names \<open>GitHub (Ericlein)\<close> and \<open>Discord\<close>, whatever the other fields of the entries.
\<close>

theorem migration_two_entries:
  assumes "urlparse netloc_ok url = Inr parsed"
    and "scheme parsed = ''otpauth-migration''"
    and "parse_qs (query parsed) ''data'' = Some (data # others)"
    and "urlsafe_b64decode data = Inr payload"
    and "parse_from_string payload =
           Inr [\<lparr>otp_secret = [0x00, 0x01], otp_name = ''Ericlein'', otp_issuer = ''GitHub'',
                  otp_algorithm = alg_a, otp_digits = dig_a\<rparr>,
                \<lparr>otp_secret = [0xFF], otp_name = [], otp_issuer = ''Discord'',
                  otp_algorithm = alg_b, otp_digits = dig_b\<rparr>]"
  shows "parse_migration_url netloc_ok print_error urlsafe_b64decode parse_from_string url =
           Inr (Some [\<lparr>acc_name = ''GitHub (Ericlein)'', acc_secret = ''AAAQ===='',
                         acc_digits = migration_digits dig_a,
                         acc_algorithm = migration_algorithm alg_a\<rparr>,
                       \<lparr>acc_name = ''Discord'', acc_secret = ''74======'',
                         acc_digits = migration_digits dig_b,
                         acc_algorithm = migration_algorithm alg_b\<rparr>])"
  using assms
  by (simp add: parse_migration_url_def parse_migration_body_def two_entries_accounts
        del: accounts_loop.simps)

theorem migration_two_entries_witness:
  "parse_migration_url (\<lambda>n. True) (\<lambda>u. None)
     (\<lambda>data. Inr [])
     (\<lambda>payload.
        Inr [\<lparr>otp_secret = [0x00, 0x01], otp_name = ''Ericlein'', otp_issuer = ''GitHub'',
               otp_algorithm = 1, otp_digits = 1\<rparr>,
             \<lparr>otp_secret = [0xFF], otp_name = [], otp_issuer = ''Discord'',
               otp_algorithm = 2, otp_digits = 8\<rparr>])
     ''otpauth-migration://offline?data=AAAA''
   = Inr (Some [\<lparr>acc_name = ''GitHub (Ericlein)'', acc_secret = ''AAAQ===='',
                   acc_digits = 6, acc_algorithm = ''SHA1''\<rparr>,
                 \<lparr>acc_name = ''Discord'', acc_secret = ''74======'',
                   acc_digits = 8, acc_algorithm = ''SHA256''\<rparr>])"
proof -
  have u: "urlparse (\<lambda>n. True) ''otpauth-migration://offline?data=AAAA'' =
             Inr \<lparr>scheme = ''otpauth-migration'', netloc = ''offline'', path = [],
                   params = [], query = ''data=AAAA'', fragment = []\<rparr>"
    by code_simp
  have q: "parse_qs ''data=AAAA'' ''data'' = Some [''AAAA'']"
    by code_simp
  have d: "migration_digits 1 = 6" "migration_digits 8 = 8"
    by (simp_all add: migration_digits_def)
  have a: "migration_algorithm 1 = ''SHA1''" "migration_algorithm 2 = ''SHA256''"
    by (simp_all add: migration_algorithm_def algorithm_map_def)
  show ?thesis
    using migration_two_entries
      [where url = "''otpauth-migration://offline?data=AAAA''"
         and urlsafe_b64decode = "\<lambda>data. Inr []" and payload = "[]"
         and data = "''AAAA''" and others = "[]"
         and alg_a = 1 and dig_a = 1 and alg_b = 2 and dig_b = 8, OF u]
    by (simp add: q d a)
qed

text \<open>
  Claim C5 as stated fails: the secrets emitted for the bytes \<open>00 01\<close> and \<open>FF\<close> are not
  \<open>AAE=\<close> and \<open>7A======\<close>, with or without the padding.
\<close>

theorem migration_two_entries_counterexample:
  "map acc_secret
     (accounts_loop
        [\<lparr>otp_secret = [0x00, 0x01], otp_name = ''Ericlein'', otp_issuer = ''GitHub'',
           otp_algorithm = 1, otp_digits = 1\<rparr>,
         \<lparr>otp_secret = [0xFF], otp_name = [], otp_issuer = ''Discord'',
           otp_algorithm = 1, otp_digits = 1\<rparr>] [])
     = [''AAAQ===='', ''74======''] \<and>
   unpadded ''AAAQ===='' \<noteq> unpadded ''AAE='' \<and>
   unpadded ''74======'' \<noteq> unpadded ''7A======''"
  unfolding two_entries_accounts by (simp add: unpadded_def)

section \<open>The display name\<close>

lemma get_first_parse_qs:
  "get_first (parse_qs qs) k dflt =
     Inr (case first_value (parse_qs qs) k of None \<Rightarrow> dflt | Some v \<Rightarrow> Some v)"
  using parse_qs_not_empty_list [of qs k]
  by (cases "parse_qs qs k") (auto simp: get_first_def first_value_def split: list.splits)

lemma first_value_nonempty: "first_value (parse_qs qs) k = Some v \<Longrightarrow> v \<noteq> []"
  using parse_qs_value_nonempty [of qs k]
  by (auto simp: first_value_def split: option.splits list.splits)

lemma the_value_or:
  "the (case first_value d k of None \<Rightarrow> Some dflt | Some v \<Rightarrow> Some v) = value_or d k dflt"
  by (simp add: value_or_def split: option.splits)

lemma parse_otpauth_body_unfold:
  "parse_otpauth_body netloc_ok url =
     (case urlparse netloc_ok url of
        Inl e \<Rightarrow> Inl e
      | Inr parsed \<Rightarrow>
          if scheme parsed \<noteq> ''otpauth'' then Inr None
          else (case first_value (parse_qs (query parsed)) ''secret'' of
                  None \<Rightarrow> Inr None
                | Some secret \<Rightarrow>
                    (case py_int (value_or (parse_qs (query parsed)) ''digits'' ''6'') of
                       Inl e \<Rightarrow> Inl e
                     | Inr dg \<Rightarrow>
                         Inr (Some
                           \<lparr>acc_name =
                              url_display_name
                                (fst (label_issuer_account
                                   (unquote (lstrip_char CHR ''/'' (path parsed)))
                                   (first_value (parse_qs (query parsed)) ''issuer'')))
                                (snd (label_issuer_account
                                   (unquote (lstrip_char CHR ''/'' (path parsed)))
                                   (first_value (parse_qs (query parsed)) ''issuer''))),
                            acc_secret = secret,
                            acc_digits = (if dg \<notin> set [6, 7, 8] then 6 else dg),
                            acc_algorithm =
                              (if upper (value_or (parse_qs (query parsed)) ''algorithm'' ''SHA1'')
                                  \<notin> set [''SHA1'', ''SHA256'', ''SHA512'', ''MD5'']
                               then ''SHA1''
                               else upper (value_or (parse_qs (query parsed)) ''algorithm''
                                             ''SHA1''))\<rparr>))))"
proof (cases "urlparse netloc_ok url")
  case (Inl e)
  then show ?thesis by (simp add: parse_otpauth_body_def)
next
  case (Inr parsed)
  show ?thesis
  proof (cases "first_value (parse_qs (query parsed)) ''secret''")
    case None
    with Inr show ?thesis
      by (simp add: parse_otpauth_body_def get_first_parse_qs)
  next
    case (Some secret)
    then have ne: "secret \<noteq> []"
      by (rule first_value_nonempty)
    have issuer: "(case first_value (parse_qs (query parsed)) ''issuer'' of
                     None \<Rightarrow> None | Some v \<Rightarrow> Some v) =
                  first_value (parse_qs (query parsed)) ''issuer''"
      by (simp split: option.splits)
    show ?thesis
    proof (cases "py_int (value_or (parse_qs (query parsed)) ''digits'' ''6'')")
      case (Inl e)
      with Inr Some ne show ?thesis
        by (simp add: parse_otpauth_body_def get_first_parse_qs the_value_or)
    next
      case dg: (Inr dg)
      with Inr Some ne show ?thesis
        by (simp add: parse_otpauth_body_def get_first_parse_qs the_value_or issuer Let_def)
    qed
  qed
qed

lemma parse_otpauth_body_raises:
  assumes "parse_otpauth_body netloc_ok url = Inl e"
  shows "e = ValueError"
  using assms unfolding parse_otpauth_body_unfold
  by (auto simp: urlparse_def py_int_def Let_def split: sum.splits if_splits option.splits)

lemma parse_otpauth_url_unfold:
  "parse_otpauth_url netloc_ok print_error url =
     (case parse_otpauth_body netloc_ok url of
        Inl e \<Rightarrow> (case print_error url of None \<Rightarrow> Inr None | Some raised \<Rightarrow> Inl raised)
      | Inr r \<Rightarrow> Inr r)"
proof (cases "parse_otpauth_body netloc_ok url")
  case (Inl e)
  with parse_otpauth_body_raises [OF Inl] show ?thesis
    by (simp add: parse_otpauth_url_def)
next
  case (Inr r)
  then show ?thesis by (simp add: parse_otpauth_url_def)
qed

lemma parse_otpauth_url_SomeE:
  assumes "parse_otpauth_url netloc_ok print_error url = Inr (Some a)"
  obtains parsed dg where "urlparse netloc_ok url = Inr parsed"
    and "scheme parsed = ''otpauth''"
    and "first_value (parse_qs (query parsed)) ''secret'' = Some (acc_secret a)"
    and "py_int (value_or (parse_qs (query parsed)) ''digits'' ''6'') = Inr dg"
    and "acc_digits a = (if dg \<notin> set [6, 7, 8] then 6 else dg)"
    and "acc_name a =
           url_display_name
             (fst (label_issuer_account (unquote (lstrip_char CHR ''/'' (path parsed)))
                (first_value (parse_qs (query parsed)) ''issuer'')))
             (snd (label_issuer_account (unquote (lstrip_char CHR ''/'' (path parsed)))
                (first_value (parse_qs (query parsed)) ''issuer'')))"
proof -
  from assms have body: "parse_otpauth_body netloc_ok url = Inr (Some a)"
    by (simp add: parse_otpauth_url_unfold split: sum.splits option.splits)
  then obtain parsed where p: "urlparse netloc_ok url = Inr parsed"
    unfolding parse_otpauth_body_unfold by (cases "urlparse netloc_ok url") simp_all
  with body have sch: "scheme parsed = ''otpauth''"
    unfolding parse_otpauth_body_unfold by (simp split: if_splits)
  with body p obtain secret where
    sec: "first_value (parse_qs (query parsed)) ''secret'' = Some secret"
    unfolding parse_otpauth_body_unfold
    by (cases "first_value (parse_qs (query parsed)) ''secret''") simp_all
  with body p sch obtain dg where
    dg: "py_int (value_or (parse_qs (query parsed)) ''digits'' ''6'') = Inr dg"
    unfolding parse_otpauth_body_unfold
    by (cases "py_int (value_or (parse_qs (query parsed)) ''digits'' ''6'')") simp_all
  from body p sch sec dg have
    "a = \<lparr>acc_name =
            url_display_name
              (fst (label_issuer_account (unquote (lstrip_char CHR ''/'' (path parsed)))
                 (first_value (parse_qs (query parsed)) ''issuer'')))
              (snd (label_issuer_account (unquote (lstrip_char CHR ''/'' (path parsed)))
                 (first_value (parse_qs (query parsed)) ''issuer''))),
          acc_secret = secret,
          acc_digits = (if dg \<notin> set [6, 7, 8] then 6 else dg),
          acc_algorithm =
            (if upper (value_or (parse_qs (query parsed)) ''algorithm'' ''SHA1'')
                \<notin> set [''SHA1'', ''SHA256'', ''SHA512'', ''MD5'']
             then ''SHA1''
             else upper (value_or (parse_qs (query parsed)) ''algorithm'' ''SHA1''))\<rparr>"
    unfolding parse_otpauth_body_unfold by simp
  then have "acc_secret a = secret"
    and "acc_digits a = (if dg \<notin> set [6, 7, 8] then 6 else dg)"
    and "acc_name a =
           url_display_name
             (fst (label_issuer_account (unquote (lstrip_char CHR ''/'' (path parsed)))
                (first_value (parse_qs (query parsed)) ''issuer'')))
             (snd (label_issuer_account (unquote (lstrip_char CHR ''/'' (path parsed)))
                (first_value (parse_qs (query parsed)) ''issuer'')))"
    by simp_all
  with p sch sec dg that show thesis by simp
qed

lemma url_name_composed:
  assumes "parse_otpauth_url netloc_ok print_error url = Inr (Some a)"
  shows "\<exists>parsed. urlparse netloc_ok url = Inr parsed \<and>
           acc_name a =
             compose_display_name (text_of (fst (url_issuer_account parsed)))
               (snd (url_issuer_account parsed))"
proof -
  from assms obtain parsed where p: "urlparse netloc_ok url = Inr parsed"
    and nm: "acc_name a =
           url_display_name
             (fst (label_issuer_account (unquote (lstrip_char CHR ''/'' (path parsed)))
                (first_value (parse_qs (query parsed)) ''issuer'')))
             (snd (label_issuer_account (unquote (lstrip_char CHR ''/'' (path parsed)))
                (first_value (parse_qs (query parsed)) ''issuer'')))"
    by (elim parse_otpauth_url_SomeE)
  from nm have "acc_name a =
      compose_display_name (text_of (fst (url_issuer_account parsed)))
        (snd (url_issuer_account parsed))"
    by (simp add: url_display_name_compose url_issuer_account_def text_of_def)
  with p show ?thesis by blast
qed

lemma url_result_composed:
  assumes "urlparse netloc_ok url = Inr parsed"
    and "scheme parsed = ''otpauth''"
    and "first_value (parse_qs (query parsed)) ''secret'' = Some secret"
    and "py_int (value_or (parse_qs (query parsed)) ''digits'' ''6'') = Inr n"
  shows "\<exists>a. parse_otpauth_url netloc_ok print_error url = Inr (Some a) \<and>
           acc_name a =
             compose_display_name (text_of (fst (url_issuer_account parsed)))
               (snd (url_issuer_account parsed))"
  using assms
  by (simp add: parse_otpauth_url_unfold parse_otpauth_body_unfold url_display_name_compose
        url_issuer_account_def text_of_def)

lemma migration_names_composed:
  "map acc_name (accounts_loop otps []) =
     map (\<lambda>otp. compose_display_name (otp_issuer otp) (otp_name otp)) otps"
  by (simp add: accounts_loop_map otp_account_def migration_display_name_compose)

lemma migration_result_composed:
  assumes "urlparse netloc_ok url = Inr parsed"
    and "scheme parsed = ''otpauth-migration''"
    and "parse_qs (query parsed) ''data'' = Some (data # others)"
    and "urlsafe_b64decode data = Inr payload"
    and "parse_from_string payload = Inr otps"
  shows "\<exists>accounts.
           parse_migration_url netloc_ok print_error urlsafe_b64decode parse_from_string url =
             Inr (Some accounts) \<and>
           map acc_name accounts =
             map (\<lambda>otp. compose_display_name (otp_issuer otp) (otp_name otp)) otps"
  using assms
  by (simp add: parse_migration_url_def parse_migration_body_def migration_names_composed
        del: accounts_loop.simps)

lemma url_names_examples:
  "parse_otpauth_url netloc_ok print_error ''otpauth://totp/Acme:joe?secret=ABC'' =
     Inr (Some \<lparr>acc_name = ''Acme (joe)'', acc_secret = ''ABC'', acc_digits = 6,
                 acc_algorithm = ''SHA1''\<rparr>)"
  "parse_otpauth_url netloc_ok print_error ''otpauth://totp/?secret=ABC&issuer=Acme'' =
     Inr (Some \<lparr>acc_name = ''Acme'', acc_secret = ''ABC'', acc_digits = 6,
                 acc_algorithm = ''SHA1''\<rparr>)"
  "parse_otpauth_url netloc_ok print_error ''otpauth://totp/joe?secret=ABC'' =
     Inr (Some \<lparr>acc_name = ''joe'', acc_secret = ''ABC'', acc_digits = 6,
                 acc_algorithm = ''SHA1''\<rparr>)"
  "parse_otpauth_url netloc_ok print_error ''otpauth://totp/?secret=ABC'' =
     Inr (Some \<lparr>acc_name = ''Unknown'', acc_secret = ''ABC'', acc_digits = 6,
                 acc_algorithm = ''SHA1''\<rparr>)"
  by code_simp+

text \<open>
  Claim C4. For every issuer text and name text, the composition of the migration path
  and that of the single-account path both give the name the specification's rule gives,
  which is never empty. The names of the accounts that the migration parser emits are the
  compositions of the issuers and names of the entries, in their order; the name of the
  account that the single-account parser emits is the composition of the issuer and the
  account name of the URL, and it is never empty. Both parsers do emit these accounts:
  the migration parser whenever the payload decodes, the single-account parser whenever
  the URL has the scheme, a secret and digits that \<open>int\<close> reads. The four cases of the rule
  are those of four URLs: issuer and name, issuer only, name only, neither.
\<close>

theorem display_name_shared_rule:
  "migration_display_name issuer nm = compose_display_name issuer nm \<and>
   url_display_name (Some issuer) nm = compose_display_name issuer nm \<and>
   url_display_name None nm = compose_display_name [] nm \<and>
   compose_display_name issuer nm \<noteq> [] \<and>
   map acc_name (accounts_loop otps []) =
     map (\<lambda>otp. compose_display_name (otp_issuer otp) (otp_name otp)) otps \<and>
   (\<forall>url parsed data others payload.
      urlparse netloc_ok url = Inr parsed \<and> scheme parsed = ''otpauth-migration'' \<and>
      parse_qs (query parsed) ''data'' = Some (data # others) \<and>
      urlsafe_b64decode data = Inr payload \<and> parse_from_string payload = Inr otps \<longrightarrow>
      (\<exists>accounts.
         parse_migration_url netloc_ok print_error urlsafe_b64decode parse_from_string url =
           Inr (Some accounts) \<and>
         map acc_name accounts =
           map (\<lambda>otp. compose_display_name (otp_issuer otp) (otp_name otp)) otps)) \<and>
   (\<forall>url a. parse_otpauth_url netloc_ok print_error url = Inr (Some a) \<longrightarrow>
      (\<exists>parsed. urlparse netloc_ok url = Inr parsed \<and>
         acc_name a =
           compose_display_name (text_of (fst (url_issuer_account parsed)))
             (snd (url_issuer_account parsed))) \<and>
      acc_name a \<noteq> []) \<and>
   (\<forall>url parsed secret n.
      urlparse netloc_ok url = Inr parsed \<and> scheme parsed = ''otpauth'' \<and>
      first_value (parse_qs (query parsed)) ''secret'' = Some secret \<and>
      py_int (value_or (parse_qs (query parsed)) ''digits'' ''6'') = Inr n \<longrightarrow>
      (\<exists>a. parse_otpauth_url netloc_ok print_error url = Inr (Some a) \<and>
         acc_name a =
           compose_display_name (text_of (fst (url_issuer_account parsed)))
             (snd (url_issuer_account parsed)))) \<and>
   parse_otpauth_url netloc_ok print_error ''otpauth://totp/Acme:joe?secret=ABC'' =
     Inr (Some \<lparr>acc_name = ''Acme (joe)'', acc_secret = ''ABC'', acc_digits = 6,
                 acc_algorithm = ''SHA1''\<rparr>) \<and>
   parse_otpauth_url netloc_ok print_error ''otpauth://totp/?secret=ABC&issuer=Acme'' =
     Inr (Some \<lparr>acc_name = ''Acme'', acc_secret = ''ABC'', acc_digits = 6,
                 acc_algorithm = ''SHA1''\<rparr>) \<and>
   parse_otpauth_url netloc_ok print_error ''otpauth://totp/joe?secret=ABC'' =
     Inr (Some \<lparr>acc_name = ''joe'', acc_secret = ''ABC'', acc_digits = 6,
                 acc_algorithm = ''SHA1''\<rparr>) \<and>
   parse_otpauth_url netloc_ok print_error ''otpauth://totp/?secret=ABC'' =
     Inr (Some \<lparr>acc_name = ''Unknown'', acc_secret = ''ABC'', acc_digits = 6,
                 acc_algorithm = ''SHA1''\<rparr>)"
proof -
  have rule: "migration_display_name issuer nm = compose_display_name issuer nm"
    "url_display_name (Some issuer) nm = compose_display_name issuer nm"
    "url_display_name None nm = compose_display_name [] nm"
    "compose_display_name issuer nm \<noteq> []"
    by (simp_all add: migration_display_name_compose url_display_name_compose
          compose_display_name_nonempty)
  have mig: "\<forall>url parsed data others payload.
      urlparse netloc_ok url = Inr parsed \<and> scheme parsed = ''otpauth-migration'' \<and>
      parse_qs (query parsed) ''data'' = Some (data # others) \<and>
      urlsafe_b64decode data = Inr payload \<and> parse_from_string payload = Inr otps \<longrightarrow>
      (\<exists>accounts.
         parse_migration_url netloc_ok print_error urlsafe_b64decode parse_from_string url =
           Inr (Some accounts) \<and>
         map acc_name accounts =
           map (\<lambda>otp. compose_display_name (otp_issuer otp) (otp_name otp)) otps)"
    using migration_result_composed by blast
  have res: "\<forall>url a. parse_otpauth_url netloc_ok print_error url = Inr (Some a) \<longrightarrow>
      (\<exists>parsed. urlparse netloc_ok url = Inr parsed \<and>
         acc_name a =
           compose_display_name (text_of (fst (url_issuer_account parsed)))
             (snd (url_issuer_account parsed))) \<and>
      acc_name a \<noteq> []"
  proof (intro allI impI conjI)
    fix url a
    assume r: "parse_otpauth_url netloc_ok print_error url = Inr (Some a)"
    from url_name_composed [OF r]
    show c: "\<exists>parsed. urlparse netloc_ok url = Inr parsed \<and>
         acc_name a =
           compose_display_name (text_of (fst (url_issuer_account parsed)))
             (snd (url_issuer_account parsed))" .
    then obtain parsed where
      "acc_name a =
         compose_display_name (text_of (fst (url_issuer_account parsed)))
           (snd (url_issuer_account parsed))"
      by blast
    then show "acc_name a \<noteq> []"
      by (simp add: compose_display_name_nonempty)
  qed
  have pos: "\<forall>url parsed secret n.
      urlparse netloc_ok url = Inr parsed \<and> scheme parsed = ''otpauth'' \<and>
      first_value (parse_qs (query parsed)) ''secret'' = Some secret \<and>
      py_int (value_or (parse_qs (query parsed)) ''digits'' ''6'') = Inr n \<longrightarrow>
      (\<exists>a. parse_otpauth_url netloc_ok print_error url = Inr (Some a) \<and>
         acc_name a =
           compose_display_name (text_of (fst (url_issuer_account parsed)))
             (snd (url_issuer_account parsed)))"
    using url_result_composed by blast
  from rule migration_names_composed mig res pos url_names_examples
  show ?thesis by (intro conjI)
qed

theorem display_name_shared_rule_witness:
  "(\<exists>a. parse_otpauth_url (\<lambda>n. True) (\<lambda>u. None) ''otpauth://totp/Acme:joe?secret=ABC&digits=8'' =
          Inr (Some a) \<and>
        acc_name a = compose_display_name ''Acme'' ''joe'' \<and> acc_name a = ''Acme (joe)'') \<and>
   (\<exists>accounts.
      parse_migration_url (\<lambda>n. True) (\<lambda>u. None) (\<lambda>data. Inr [])
        (\<lambda>payload.
           Inr [\<lparr>otp_secret = [0x00, 0x01], otp_name = ''Ericlein'', otp_issuer = ''GitHub'',
                  otp_algorithm = 1, otp_digits = 1\<rparr>,
                \<lparr>otp_secret = [0xFF], otp_name = [], otp_issuer = ''Discord'',
                  otp_algorithm = 1, otp_digits = 1\<rparr>])
        ''otpauth-migration://offline?data=AAAA'' = Inr (Some accounts) \<and>
      map acc_name accounts = [''GitHub (Ericlein)'', ''Discord''])"
proof -
  let ?url = "''otpauth://totp/Acme:joe?secret=ABC&digits=8''"
  let ?P = "\<lparr>scheme = ''otpauth'', netloc = ''totp'', path = ''/Acme:joe'', params = [],
             query = ''secret=ABC&digits=8'', fragment = []\<rparr>"
  let ?M = "\<lparr>scheme = ''otpauth-migration'', netloc = ''offline'', path = [], params = [],
             query = ''data=AAAA'', fragment = []\<rparr>"
  let ?otps = "[\<lparr>otp_secret = [0x00, 0x01], otp_name = ''Ericlein'', otp_issuer = ''GitHub'',
                  otp_algorithm = 1, otp_digits = 1\<rparr>,
                \<lparr>otp_secret = [0xFF], otp_name = [], otp_issuer = ''Discord'',
                  otp_algorithm = 1, otp_digits = 1\<rparr>]"
  note rule = display_name_shared_rule
    [where netloc_ok = "\<lambda>n. True" and print_error = "\<lambda>u. None"
       and urlsafe_b64decode = "\<lambda>data. Inr []"
       and parse_from_string = "\<lambda>payload. Inr ?otps" and otps = ?otps]
  note mig = rule [THEN conjunct2, THEN conjunct2, THEN conjunct2, THEN conjunct2,
    THEN conjunct2, THEN conjunct1, rule_format]
  note res = rule [THEN conjunct2, THEN conjunct2, THEN conjunct2, THEN conjunct2,
    THEN conjunct2, THEN conjunct2, THEN conjunct1, rule_format]
  note pos = rule [THEN conjunct2, THEN conjunct2, THEN conjunct2, THEN conjunct2,
    THEN conjunct2, THEN conjunct2, THEN conjunct2, THEN conjunct1, rule_format]
  have u: "urlparse (\<lambda>n. True) ?url = Inr ?P"
    by code_simp
  have sch: "scheme ?P = ''otpauth''"
    by simp
  have s: "first_value (parse_qs (query ?P)) ''secret'' = Some ''ABC''"
    and d: "py_int (value_or (parse_qs (query ?P)) ''digits'' ''6'') = Inr 8"
    and i: "url_issuer_account ?P = (Some ''Acme'', ''joe'')"
    and c: "compose_display_name ''Acme'' ''joe'' = ''Acme (joe)''"
    by code_simp+
  from pos [OF conjI [OF u conjI [OF sch conjI [OF s d]]]]
  obtain a where a: "parse_otpauth_url (\<lambda>n. True) (\<lambda>u. None) ?url = Inr (Some a)"
    and "acc_name a =
           compose_display_name (text_of (fst (url_issuer_account ?P)))
             (snd (url_issuer_account ?P))"
    by blast
  then have n: "acc_name a = compose_display_name ''Acme'' ''joe''"
    by (simp add: i text_of_def)
  from res [OF a] have "acc_name a \<noteq> []"
    by blast
  have um: "urlparse (\<lambda>n. True) ''otpauth-migration://offline?data=AAAA'' = Inr ?M"
    by code_simp
  have schm: "scheme ?M = ''otpauth-migration''"
    by simp
  have q: "parse_qs (query ?M) ''data'' = Some [''AAAA'']"
    by code_simp
  have dec: "(Inr [] :: py_exception + byte list) = Inr []"
    and par: "(Inr ?otps :: py_exception + otp_parameters list) = Inr ?otps"
    by simp_all
  have cm: "map (\<lambda>otp. compose_display_name (otp_issuer otp) (otp_name otp)) ?otps =
            [''GitHub (Ericlein)'', ''Discord'']"
    by (simp add: compose_display_name_def)
  from mig [OF conjI [OF um conjI [OF schm conjI [OF q conjI [OF dec par]]]]]
  have "\<exists>accounts.
      parse_migration_url (\<lambda>n. True) (\<lambda>u. None) (\<lambda>data. Inr []) (\<lambda>payload. Inr ?otps)
        ''otpauth-migration://offline?data=AAAA'' = Inr (Some accounts) \<and>
      map acc_name accounts = [''GitHub (Ericlein)'', ''Discord'']"
    unfolding cm .
  with a n c show ?thesis by auto
qed

section \<open>Existing files and the output writer\<close>

lemma rebuild_accounts:
  "map (\<lambda>acc. \<lparr>acc_name = acc_name acc, acc_secret = acc_secret acc,
                 acc_digits = acc_digits acc, acc_algorithm = acc_algorithm acc\<rparr>) accounts
   = accounts"
  by (induction accounts) simp_all

lemma paths_differ: "UPDATED_ACCOUNTS_JSON \<noteq> CSHARP_ACCOUNTS_JSON"
  by (simp add: UPDATED_ACCOUNTS_JSON_def CSHARP_ACCOUNTS_JSON_def)

lemma create_accounts_json_write:
  "accounts \<noteq> [] \<Longrightarrow>
     snd (create_accounts_json accounts fs) = fs(csharp_file fs \<mapsto> accounts)"
  by (simp add: create_accounts_json_def rebuild_accounts)

text \<open>
  Claim C7, as the code has it. When \<open>accounts.json\<close> already exists, a write goes to the
  one alternate path \<open>updated_accounts.json\<close>, which differs from it; the content of
  \<open>accounts.json\<close> and of every file but the alternate is left unchanged. When
  \<open>accounts.json\<close> does not exist, the first write creates it, and a second write goes to
  a different path and leaves the content of the first unchanged.
\<close>

theorem writer_keeps_accounts_json:
  assumes "accounts \<noteq> []" and "later \<noteq> []"
    and "fs CSHARP_ACCOUNTS_JSON = Some old"
    and "fresh CSHARP_ACCOUNTS_JSON = None"
  shows "csharp_file fs = UPDATED_ACCOUNTS_JSON \<and>
         csharp_file fs \<noteq> CSHARP_ACCOUNTS_JSON \<and>
         snd (create_accounts_json accounts fs) CSHARP_ACCOUNTS_JSON = Some old \<and>
         snd (create_accounts_json accounts fs) UPDATED_ACCOUNTS_JSON = Some accounts \<and>
         (\<forall>p. p \<noteq> UPDATED_ACCOUNTS_JSON \<longrightarrow> snd (create_accounts_json accounts fs) p = fs p) \<and>
         csharp_file fresh = CSHARP_ACCOUNTS_JSON \<and>
         csharp_file (snd (create_accounts_json accounts fresh)) \<noteq> csharp_file fresh \<and>
         snd (create_accounts_json later (snd (create_accounts_json accounts fresh)))
           CSHARP_ACCOUNTS_JSON = Some accounts"
proof -
  have alt: "csharp_file fs = UPDATED_ACCOUNTS_JSON"
    using assms(3) by (simp add: csharp_file_def)
  have first: "csharp_file fresh = CSHARP_ACCOUNTS_JSON"
    using assms(4) by (simp add: csharp_file_def)
  have second: "csharp_file (snd (create_accounts_json accounts fresh)) = UPDATED_ACCOUNTS_JSON"
    using assms(1) first by (simp add: create_accounts_json_write) (simp add: csharp_file_def)
  show ?thesis
    using assms(1,2,3) alt first second paths_differ
    by (simp add: create_accounts_json_write)
qed

theorem writer_keeps_accounts_json_witness:
  "snd (create_accounts_json
          [\<lparr>acc_name = ''Discord'', acc_secret = ''74======'', acc_digits = 6,
             acc_algorithm = ''SHA1''\<rparr>]
          (Map.empty(CSHARP_ACCOUNTS_JSON \<mapsto>
             [\<lparr>acc_name = ''GitHub'', acc_secret = ''AAAQ===='', acc_digits = 6,
                acc_algorithm = ''SHA1''\<rparr>])))
     CSHARP_ACCOUNTS_JSON
   = Some [\<lparr>acc_name = ''GitHub'', acc_secret = ''AAAQ===='', acc_digits = 6,
              acc_algorithm = ''SHA1''\<rparr>] \<and>
   csharp_file (snd (create_accounts_json
          [\<lparr>acc_name = ''Discord'', acc_secret = ''74======'', acc_digits = 6,
             acc_algorithm = ''SHA1''\<rparr>] Map.empty)) \<noteq> csharp_file Map.empty"
proof -
  have ne: "[\<lparr>acc_name = ''Discord'', acc_secret = ''74======'', acc_digits = 6,
              acc_algorithm = ''SHA1''\<rparr>] \<noteq> []"
    by simp
  have ex: "(Map.empty(CSHARP_ACCOUNTS_JSON \<mapsto>
               [\<lparr>acc_name = ''GitHub'', acc_secret = ''AAAQ===='', acc_digits = 6,
                  acc_algorithm = ''SHA1''\<rparr>])) CSHARP_ACCOUNTS_JSON
            = Some [\<lparr>acc_name = ''GitHub'', acc_secret = ''AAAQ===='', acc_digits = 6,
                       acc_algorithm = ''SHA1''\<rparr>]"
    by simp
  have fr: "(Map.empty :: filesystem) CSHARP_ACCOUNTS_JSON = None"
    by simp
  from writer_keeps_accounts_json
    [where fs = "Map.empty(CSHARP_ACCOUNTS_JSON \<mapsto>
                   [\<lparr>acc_name = ''GitHub'', acc_secret = ''AAAQ===='', acc_digits = 6,
                      acc_algorithm = ''SHA1''\<rparr>])"
       and fresh = "Map.empty", OF ne ne ex fr]
  show ?thesis by blast
qed

text \<open>
  Claim C7 as stated fails: with \<open>accounts.json\<close> and \<open>updated_accounts.json\<close> both
  present, the write replaces the content of \<open>updated_accounts.json\<close>.
\<close>

theorem writer_overwrites_alternate_counterexample:
  "snd (create_accounts_json
          [\<lparr>acc_name = ''Discord'', acc_secret = ''74======'', acc_digits = 6,
             acc_algorithm = ''SHA1''\<rparr>]
          (Map.empty(CSHARP_ACCOUNTS_JSON \<mapsto>
             [\<lparr>acc_name = ''GitHub'', acc_secret = ''AAAQ===='', acc_digits = 6,
                acc_algorithm = ''SHA1''\<rparr>],
           UPDATED_ACCOUNTS_JSON \<mapsto>
             [\<lparr>acc_name = ''MCB'', acc_secret = ''ABCDEF'', acc_digits = 8,
                acc_algorithm = ''SHA1''\<rparr>])))
     UPDATED_ACCOUNTS_JSON
   = Some [\<lparr>acc_name = ''Discord'', acc_secret = ''74======'', acc_digits = 6,
              acc_algorithm = ''SHA1''\<rparr>] \<and>
   snd (create_accounts_json
          [\<lparr>acc_name = ''Discord'', acc_secret = ''74======'', acc_digits = 6,
             acc_algorithm = ''SHA1''\<rparr>]
          (Map.empty(CSHARP_ACCOUNTS_JSON \<mapsto>
             [\<lparr>acc_name = ''GitHub'', acc_secret = ''AAAQ===='', acc_digits = 6,
                acc_algorithm = ''SHA1''\<rparr>],
           UPDATED_ACCOUNTS_JSON \<mapsto>
             [\<lparr>acc_name = ''MCB'', acc_secret = ''ABCDEF'', acc_digits = 8,
                acc_algorithm = ''SHA1''\<rparr>])))
     UPDATED_ACCOUNTS_JSON
   \<noteq> Some [\<lparr>acc_name = ''MCB'', acc_secret = ''ABCDEF'', acc_digits = 8,
               acc_algorithm = ''SHA1''\<rparr>]"
  by (simp add: create_accounts_json_def csharp_file_def paths_differ)

section \<open>The single-account parser and exceptions\<close>

lemma parse_otpauth_url_raises_only_from_print:
  assumes "parse_otpauth_url netloc_ok print_error url = Inl e"
  shows "print_error url = Some e"
  using assms
  by (simp add: parse_otpauth_url_unfold split: sum.splits option.splits)

lemma parse_otpauth_url_returns_when_print_returns:
  assumes "print_error url = None"
  shows "parse_otpauth_url netloc_ok print_error url = Inr None \<or>
         (\<exists>a. parse_otpauth_url netloc_ok print_error url = Inr (Some a))"
proof (cases "parse_otpauth_body netloc_ok url")
  case (Inl e)
  with assms show ?thesis by (simp add: parse_otpauth_url_unfold)
next
  case (Inr r)
  then show ?thesis by (cases r) (simp_all add: parse_otpauth_url_unfold)
qed


section \<open>The secret parameter\<close>

lemma parse_qsl_loop_member:
  assumes "(n, v) \<in> set (parse_qsl_loop fs r)"
  shows "(n, v) \<in> set r \<or>
         (\<exists>f \<in> set fs. field_value f \<noteq> [] \<and> n = field_name f \<and>
            v = unquote (str_replace CHR ''+'' CHR '' '' (field_value f)))"
  using assms
proof (induction fs arbitrary: r)
  case Nil
  then show ?case by simp
next
  case (Cons f fs)
  show ?case
  proof (cases "f \<noteq> [] \<and> length (str_split1 CHR ''='' f) = 2 \<and> length (str_split1 CHR ''='' f ! 1) \<noteq> 0")
    case True
    then have eq: "CHR ''='' \<in> set f"
      by (auto simp: str_split1_def split: if_splits)
    then have parts: "str_split1 CHR ''='' f ! 0 = takeWhile (\<lambda>x. x \<noteq> CHR ''='') f"
      "str_split1 CHR ''='' f ! Suc 0 = field_value f"
      by (simp_all add: str_split1_def field_value_def)
    from True Cons.prems have
      "(n, v) \<in> set (parse_qsl_loop fs
          (r @ [(field_name f, unquote (str_replace CHR ''+'' CHR '' '' (field_value f)))]))"
      by (simp add: Let_def parts field_name_def)
    from Cons.IH [OF this] True parts show ?thesis by auto
  next
    case False
    with Cons.prems have "(n, v) \<in> set (parse_qsl_loop fs r)"
      by (auto simp: Let_def split: if_splits)
    from Cons.IH [OF this] show ?thesis by auto
  qed
qed

lemma first_value_member:
  assumes "first_value (parse_qs qs) k = Some v"
  shows "(k, v) \<in> set (parse_qsl qs)"
proof -
  let ?vs = "map snd (filter (\<lambda>p. fst p = k) (parse_qsl qs))"
  from assms have "?vs \<noteq> []" and "v = hd ?vs"
    by (auto simp: first_value_def parse_qs_lookup split: if_splits list.splits)
  then have "v \<in> set ?vs" using hd_in_set [of ?vs] by blast
  then show ?thesis by auto
qed

lemma first_value_field:
  assumes "first_value (parse_qs qs) k = Some v"
  shows "\<exists>f \<in> set (str_split CHR ''&'' qs). field_value f \<noteq> [] \<and> field_name f = k \<and>
           v = unquote (str_replace CHR ''+'' CHR '' '' (field_value f))"
  using parse_qsl_loop_member [of k v "str_split CHR ''&'' qs" "[]"]
    first_value_member [OF assms]
  by (auto simp: parse_qsl_def)

lemma unquote_no_percent: "CHR ''%'' \<notin> set s \<Longrightarrow> unquote s = s"
  by (simp add: unquote_def)

lemma str_replace_absent: "a \<notin> set s \<Longrightarrow> str_replace a b s = s"
  by (induction s) (auto simp: str_replace_def)

text \<open>
  Claim C9. When every field of the query that is named \<open>secret\<close> has an empty value, as in
  \<open>secret=\<close>, the single-account parser yields no result, as it does when no field is
  named \<open>secret\<close>.
\<close>

theorem empty_secret_no_result:
  assumes "urlparse netloc_ok url = Inr parsed"
    and "\<forall>f \<in> set (str_split CHR ''&'' (query parsed)).
           field_name f = ''secret'' \<longrightarrow> field_value f = []"
  shows "parse_otpauth_url netloc_ok print_error url = Inr None"
proof -
  have "first_value (parse_qs (query parsed)) ''secret'' = None"
  proof (cases "first_value (parse_qs (query parsed)) ''secret''")
    case None
    then show ?thesis .
  next
    case (Some v)
    from first_value_field [OF this] assms(2) show ?thesis by blast
  qed
  with assms(1) show ?thesis
    by (simp add: parse_otpauth_url_unfold parse_otpauth_body_unfold)
qed

theorem empty_secret_no_result_witness:
  "''secret='' \<in> set (str_split CHR ''&'' ''secret=&issuer=MCB'') \<and>
   parse_otpauth_url (\<lambda>n. True) (\<lambda>u. None) ''otpauth://totp/MCB:Acme?secret=&issuer=MCB'' = Inr None"
proof -
  have u: "urlparse (\<lambda>n. True) ''otpauth://totp/MCB:Acme?secret=&issuer=MCB'' =
             Inr \<lparr>scheme = ''otpauth'', netloc = ''totp'', path = ''/MCB:Acme'',
                   params = [], query = ''secret=&issuer=MCB'', fragment = []\<rparr>"
    by code_simp
  have f: "str_split CHR ''&'' ''secret=&issuer=MCB'' = [''secret='', ''issuer=MCB'']"
    by code_simp
  have n: "field_name ''issuer=MCB'' = ''issuer''" "field_value ''secret='' = []"
    by code_simp+
  have "\<forall>f \<in> set (str_split CHR ''&''
            (query \<lparr>scheme = ''otpauth'', netloc = ''totp'', path = ''/MCB:Acme'',
                     params = [], query = ''secret=&issuer=MCB'', fragment = []\<rparr>)).
          field_name f = ''secret'' \<longrightarrow> field_value f = []"
    by (simp add: f n)
  from empty_secret_no_result [OF u this] f show ?thesis by simp
qed

text \<open>
  Claim C10. The secret of a result is the first value that \<open>parse_qs\<close> gives for
  \<open>secret\<close>: the decoded value of a field of the query named \<open>secret\<close>, and the text of the
  field itself when that holds no \<open>%\<close> and no \<open>+\<close>. Nothing else is applied to it.
\<close>

theorem secret_passed_through:
  assumes "parse_otpauth_url netloc_ok print_error url = Inr (Some a)"
  shows "\<exists>parsed. urlparse netloc_ok url = Inr parsed \<and>
           first_value (parse_qs (query parsed)) ''secret'' = Some (acc_secret a) \<and>
           (\<exists>f \<in> set (str_split CHR ''&'' (query parsed)).
              field_name f = ''secret'' \<and>
              acc_secret a = unquote (str_replace CHR ''+'' CHR '' '' (field_value f)) \<and>
              (CHR ''%'' \<notin> set (field_value f) \<and> CHR ''+'' \<notin> set (field_value f)
                 \<longrightarrow> acc_secret a = field_value f))"
proof -
  from assms obtain parsed where p: "urlparse netloc_ok url = Inr parsed"
    and s: "first_value (parse_qs (query parsed)) ''secret'' = Some (acc_secret a)"
    by (elim parse_otpauth_url_SomeE)
  from first_value_field [OF s] obtain f where
    f: "f \<in> set (str_split CHR ''&'' (query parsed))" "field_name f = ''secret''"
      "acc_secret a = unquote (str_replace CHR ''+'' CHR '' '' (field_value f))"
    by blast
  then have "CHR ''%'' \<notin> set (field_value f) \<and> CHR ''+'' \<notin> set (field_value f)
               \<longrightarrow> acc_secret a = field_value f"
    by (simp add: unquote_no_percent str_replace_absent)
  with p s f show ?thesis by blast
qed

theorem secret_passed_through_witness:
  "first_value (parse_qs ''secret=abc2def&issuer=MCB'') ''secret'' = Some ''abc2def'' \<and>
   parse_otpauth_url (\<lambda>n. True) (\<lambda>u. None) ''otpauth://totp/MCB:Acme?secret=abc2def&issuer=MCB'' =
     Inr (Some \<lparr>acc_name = ''MCB (Acme)'', acc_secret = ''abc2def'', acc_digits = 6,
                 acc_algorithm = ''SHA1''\<rparr>)"
proof -
  have r: "parse_otpauth_url (\<lambda>n. True) (\<lambda>u. None) ''otpauth://totp/MCB:Acme?secret=abc2def&issuer=MCB'' =
             Inr (Some \<lparr>acc_name = ''MCB (Acme)'', acc_secret = ''abc2def'', acc_digits = 6,
                         acc_algorithm = ''SHA1''\<rparr>)"
    by code_simp
  have u: "urlparse (\<lambda>n. True) ''otpauth://totp/MCB:Acme?secret=abc2def&issuer=MCB'' =
             Inr \<lparr>scheme = ''otpauth'', netloc = ''totp'', path = ''/MCB:Acme'',
                   params = [], query = ''secret=abc2def&issuer=MCB'', fragment = []\<rparr>"
    by code_simp
  from secret_passed_through [OF r] u r show ?thesis by simp
qed

section \<open>Label and issuer\<close>

lemma label_issuer_account_colon:
  assumes "CHR '':'' \<in> set label"
  shows "label_issuer_account label issuer =
           (if truthy issuer
            then (issuer, drop 1 (dropWhile (\<lambda>x. x \<noteq> CHR '':'') label))
            else (Some (takeWhile (\<lambda>x. x \<noteq> CHR '':'') label),
                  drop 1 (dropWhile (\<lambda>x. x \<noteq> CHR '':'') label)))"
  using assms by (simp add: label_issuer_account_def str_split1_def Let_def)

text \<open>
  Claim C3. Let a single-account URL that yields a result have a label (the decoded path
  without its leading slashes) that contains a colon. When the \<open>issuer\<close> query parameter
  has a value, that value is the issuer and the text after the first colon of the label
  is the account name; when it has none, the text before the first colon is the issuer
  and the text after it the account name. The name of the result is composed from this
  issuer and account name. The URL
  \<open>otpauth://totp/MCB:Acme?secret=ABCDEF&issuer=MCB&digits=8\<close> yields the name
  \<open>MCB (Acme)\<close> and 8 digits.
\<close>

theorem label_colon_issuer_precedence:
  assumes "parse_otpauth_url netloc_ok print_error url = Inr (Some a)"
    and "urlparse netloc_ok url = Inr parsed"
    and "label = unquote (lstrip_char CHR ''/'' (path parsed))"
    and "CHR '':'' \<in> set label"
  shows "(\<forall>i. first_value (parse_qs (query parsed)) ''issuer'' = Some i \<longrightarrow>
            label_issuer_account label (Some i) =
              (Some i, drop 1 (dropWhile (\<lambda>x. x \<noteq> CHR '':'') label)) \<and>
            acc_name a =
              url_display_name (Some i) (drop 1 (dropWhile (\<lambda>x. x \<noteq> CHR '':'') label))) \<and>
         (first_value (parse_qs (query parsed)) ''issuer'' = None \<longrightarrow>
            label_issuer_account label None =
              (Some (takeWhile (\<lambda>x. x \<noteq> CHR '':'') label),
               drop 1 (dropWhile (\<lambda>x. x \<noteq> CHR '':'') label)) \<and>
            acc_name a =
              url_display_name (Some (takeWhile (\<lambda>x. x \<noteq> CHR '':'') label))
                (drop 1 (dropWhile (\<lambda>x. x \<noteq> CHR '':'') label))) \<and>
         parse_otpauth_url netloc_ok print_error
             ''otpauth://totp/MCB:Acme?secret=ABCDEF&issuer=MCB&digits=8'' =
           Inr (Some \<lparr>acc_name = ''MCB (Acme)'', acc_secret = ''ABCDEF'', acc_digits = 8,
                       acc_algorithm = ''SHA1''\<rparr>)"
proof -
  from assms(1) obtain parsed' where p': "urlparse netloc_ok url = Inr parsed'"
    and nm: "acc_name a =
           url_display_name
             (fst (label_issuer_account (unquote (lstrip_char CHR ''/'' (path parsed')))
                (first_value (parse_qs (query parsed')) ''issuer'')))
             (snd (label_issuer_account (unquote (lstrip_char CHR ''/'' (path parsed')))
                (first_value (parse_qs (query parsed')) ''issuer'')))"
    by (elim parse_otpauth_url_SomeE)
  from p' assms(2) have same: "parsed' = parsed" by simp
  have name: "acc_name a =
           url_display_name
             (fst (label_issuer_account label (first_value (parse_qs (query parsed)) ''issuer'')))
             (snd (label_issuer_account label (first_value (parse_qs (query parsed)) ''issuer'')))"
    using nm unfolding same assms(3) .
  have supplied: "label_issuer_account label (Some i) =
              (Some i, drop 1 (dropWhile (\<lambda>x. x \<noteq> CHR '':'') label)) \<and>
            acc_name a =
              url_display_name (Some i) (drop 1 (dropWhile (\<lambda>x. x \<noteq> CHR '':'') label))"
    if i: "first_value (parse_qs (query parsed)) ''issuer'' = Some i" for i
  proof -
    from i have "i \<noteq> []" by (rule first_value_nonempty)
    then have "label_issuer_account label (Some i) =
              (Some i, drop 1 (dropWhile (\<lambda>x. x \<noteq> CHR '':'') label))"
      by (simp add: label_issuer_account_colon [OF assms(4)])
    with name i show ?thesis by simp
  qed
  have absent: "label_issuer_account label None =
              (Some (takeWhile (\<lambda>x. x \<noteq> CHR '':'') label),
               drop 1 (dropWhile (\<lambda>x. x \<noteq> CHR '':'') label)) \<and>
            acc_name a =
              url_display_name (Some (takeWhile (\<lambda>x. x \<noteq> CHR '':'') label))
                (drop 1 (dropWhile (\<lambda>x. x \<noteq> CHR '':'') label))"
    if n: "first_value (parse_qs (query parsed)) ''issuer'' = None"
  proof -
    have "label_issuer_account label None =
              (Some (takeWhile (\<lambda>x. x \<noteq> CHR '':'') label),
               drop 1 (dropWhile (\<lambda>x. x \<noteq> CHR '':'') label))"
      by (simp add: label_issuer_account_colon [OF assms(4)])
    with name n show ?thesis by simp
  qed
  have example:
    "parse_otpauth_url netloc_ok print_error
       ''otpauth://totp/MCB:Acme?secret=ABCDEF&issuer=MCB&digits=8'' =
       Inr (Some \<lparr>acc_name = ''MCB (Acme)'', acc_secret = ''ABCDEF'', acc_digits = 8,
                   acc_algorithm = ''SHA1''\<rparr>)"
    by code_simp
  from supplied absent example show ?thesis by blast
qed

theorem label_colon_issuer_precedence_witness:
  "parse_otpauth_url (\<lambda>n. True) (\<lambda>u. None) ''otpauth://totp/MCB:Acme?secret=ABCDEF&issuer=Bank'' =
     Inr (Some \<lparr>acc_name = ''Bank (Acme)'', acc_secret = ''ABCDEF'', acc_digits = 6,
                 acc_algorithm = ''SHA1''\<rparr>) \<and>
   url_display_name (Some ''Bank'') ''Acme'' = ''Bank (Acme)'' \<and>
   parse_otpauth_url (\<lambda>n. True) (\<lambda>u. None) ''otpauth://totp/MCB:Acme?secret=ABCDEF'' =
     Inr (Some \<lparr>acc_name = ''MCB (Acme)'', acc_secret = ''ABCDEF'', acc_digits = 6,
                 acc_algorithm = ''SHA1''\<rparr>) \<and>
   url_display_name (Some ''MCB'') ''Acme'' = ''MCB (Acme)''"
proof -
  have r1: "parse_otpauth_url (\<lambda>n. True) (\<lambda>u. None) ''otpauth://totp/MCB:Acme?secret=ABCDEF&issuer=Bank'' =
              Inr (Some \<lparr>acc_name = ''Bank (Acme)'', acc_secret = ''ABCDEF'', acc_digits = 6,
                          acc_algorithm = ''SHA1''\<rparr>)"
    by code_simp
  have u1: "urlparse (\<lambda>n. True) ''otpauth://totp/MCB:Acme?secret=ABCDEF&issuer=Bank'' =
              Inr \<lparr>scheme = ''otpauth'', netloc = ''totp'', path = ''/MCB:Acme'',
                    params = [], query = ''secret=ABCDEF&issuer=Bank'', fragment = []\<rparr>"
    by code_simp
  have i1: "first_value (parse_qs ''secret=ABCDEF&issuer=Bank'') ''issuer'' = Some ''Bank''"
    by code_simp
  have r2: "parse_otpauth_url (\<lambda>n. True) (\<lambda>u. None) ''otpauth://totp/MCB:Acme?secret=ABCDEF'' =
              Inr (Some \<lparr>acc_name = ''MCB (Acme)'', acc_secret = ''ABCDEF'', acc_digits = 6,
                          acc_algorithm = ''SHA1''\<rparr>)"
    by code_simp
  have u2: "urlparse (\<lambda>n. True) ''otpauth://totp/MCB:Acme?secret=ABCDEF'' =
              Inr \<lparr>scheme = ''otpauth'', netloc = ''totp'', path = ''/MCB:Acme'',
                    params = [], query = ''secret=ABCDEF'', fragment = []\<rparr>"
    by code_simp
  have i2: "first_value (parse_qs ''secret=ABCDEF'') ''issuer'' = None"
    by code_simp
  have l: "unquote (lstrip_char CHR ''/'' ''/MCB:Acme'') = ''MCB:Acme''"
    by code_simp
  have c: "CHR '':'' \<in> set ''MCB:Acme''"
    by simp
  from label_colon_issuer_precedence [OF r1 u1 _ c] l i1
  have "acc_name \<lparr>acc_name = ''Bank (Acme)'', acc_secret = ''ABCDEF'', acc_digits = 6,
                   acc_algorithm = ''SHA1''\<rparr>
          = url_display_name (Some ''Bank'') ''Acme''"
    by simp
  moreover from label_colon_issuer_precedence [OF r2 u2 _ c] l i2
  have "acc_name \<lparr>acc_name = ''MCB (Acme)'', acc_secret = ''ABCDEF'', acc_digits = 6,
                   acc_algorithm = ''SHA1''\<rparr>
          = url_display_name (Some ''MCB'') ''Acme''"
    by simp
  ultimately show ?thesis using r1 r2 by simp
qed

section \<open>The digits parameter\<close>

lemma digits_out_of_range:
  "parse_otpauth_url netloc_ok print_error ''otpauth://totp/Acme?secret=ABCDEF&digits=9'' =
     Inr (Some \<lparr>acc_name = ''Acme'', acc_secret = ''ABCDEF'', acc_digits = 6,
                 acc_algorithm = ''SHA1''\<rparr>)"
  by code_simp

text \<open>
  Claim C6 at a failing input. The URL \<open>otpauth://totp/Acme?secret=ABCDEF&digits=xyz\<close> has
  a valid secret and digits that are no number. \<open>int\<close> raises \<open>ValueError\<close> on them before
  the fallback to 6 of lines 153 and 154 is reached, and the handler makes the parser
  yield no result (or raise, when its \<open>print\<close> does): no account with 6 digits is emitted.
\<close>

theorem digits_not_a_number:
  "parse_otpauth_body netloc_ok ''otpauth://totp/Acme?secret=ABCDEF&digits=xyz'' =
     Inl ValueError \<and>
   parse_otpauth_url netloc_ok print_error ''otpauth://totp/Acme?secret=ABCDEF&digits=xyz'' =
     (case print_error ''otpauth://totp/Acme?secret=ABCDEF&digits=xyz'' of
        None \<Rightarrow> Inr None
      | Some raised \<Rightarrow> Inl raised)"
  by code_simp

end
